theory Spec2Isabelle
  imports Main
begin

section \<open>JSON values as Python sees them\<close>

text \<open>
  \<^verbatim>\<open>json.load\<close> and \<^verbatim>\<open>response.json()\<close> return Python values: \<^verbatim>\<open>None\<close>, a bool, a number,
  a \<^verbatim>\<open>str\<close>, a \<^verbatim>\<open>list\<close> or a \<^verbatim>\<open>dict\<close>. A dict is kept as the association list of its
  (distinct) keys in file order. A \<^verbatim>\<open>str\<close> is kept as its bytes in UTF-8, a lone surrogate
  (which \<^verbatim>\<open>json.load\<close> gives for an escape such as \<^verbatim>\<open>"\ud800"\<close>) as the three bytes that
  \<^verbatim>\<open>surrogatepass\<close> writes for it. A float is NaN, an infinity, minus zero, or
  \<open>Finite m e\<close> for \<open>m * 2 ^ e\<close>.
\<close>

datatype pyfloat = Finite int int | NegZero | Infinity | NegInfinity | NaN

datatype json =
    JNull
  | JBool bool
  | JInt int
  | JFloat pyfloat
  | JStr string
  | JArr "json list"
  | JObj "(string \<times> json) list"

datatype py_exc = AttributeError | TypeError | UnboundLocalError

text \<open>Python truthiness, as \<^verbatim>\<open>not x\<close> and \<^verbatim>\<open>all([...])\<close> read it.\<close>

fun truthy :: "json \<Rightarrow> bool" where
  "truthy JNull = False"
| "truthy (JBool b) = b"
| "truthy (JInt n) = (n \<noteq> 0)"
| "truthy (JFloat (Finite m e)) = (m \<noteq> 0)"
| "truthy (JFloat NegZero) = False"
| "truthy (JFloat x) = True"
| "truthy (JStr s) = (s \<noteq> [])"
| "truthy (JArr xs) = (xs \<noteq> [])"
| "truthy (JObj kvs) = (kvs \<noteq> [])"

text \<open>
  \<^verbatim>\<open>x.get(key, default)\<close>: only a dict has the method; on any other value the attribute
  lookup raises AttributeError. \<^verbatim>\<open>x.get(key)\<close> is \<^verbatim>\<open>x.get(key, None)\<close>, and \<^verbatim>\<open>None\<close> is
  what a JSON \<^verbatim>\<open>null\<close> parses to.
\<close>

fun py_get_default :: "json \<Rightarrow> string \<Rightarrow> json \<Rightarrow> py_exc + json" where
  "py_get_default (JObj kvs) k d = Inr (case map_of kvs k of None \<Rightarrow> d | Some v \<Rightarrow> v)"
| "py_get_default _ k d = Inl AttributeError"

definition py_get :: "json \<Rightarrow> string \<Rightarrow> py_exc + json" where
  "py_get x k = py_get_default x k JNull"

text \<open>
  \<^verbatim>\<open>len(x)\<close> followed by \<^verbatim>\<open>for item in x\<close>: a list yields its elements, a dict its keys, a
  string its characters (each is a \<^verbatim>\<open>str\<close> again); \<^verbatim>\<open>len\<close> of a number or bool raises
  TypeError. In the bytes kept for a string a character is a lead byte with the
  continuation bytes (\<open>0x80\<close> to \<open>0xBF\<close>) that follow it.
\<close>

definition continuation :: "char \<Rightarrow> bool" where
  "continuation b \<longleftrightarrow> 128 \<le> (of_char b :: nat) \<and> (of_char b :: nat) \<le> 191"

definition characters :: "string \<Rightarrow> string list" where
  "characters s =
     foldr (\<lambda>b acc. case acc of
                      (g # gs) \<Rightarrow> (case g of
                                      (b' # bs) \<Rightarrow> if continuation b' then (b # g) # gs
                                                    else [b] # acc
                                    | [] \<Rightarrow> [b] # acc)
                    | [] \<Rightarrow> [[b]]) s []"

fun py_iter :: "json \<Rightarrow> py_exc + json list" where
  "py_iter (JArr xs) = Inr xs"
| "py_iter (JObj kvs) = Inr (map (\<lambda>kv. JStr (fst kv)) kvs)"
| "py_iter (JStr s) = Inr (map JStr (characters s))"
| "py_iter _ = Inl TypeError"

text \<open>
  \<^verbatim>\<open>json.dump(value, f, ensure_ascii=False)\<close> into a file opened with \<^verbatim>\<open>encoding='utf-8'\<close>
  raises UnicodeEncodeError when a string or a key of the value holds a lone surrogate: in
  the bytes kept here, \<open>0xED\<close> followed by a byte from \<open>0xA0\<close> to \<open>0xBF\<close>. NaN and the infinities
  are written (\<^verbatim>\<open>allow_nan\<close> is left on).
\<close>

fun lone_surrogate :: "string \<Rightarrow> bool" where
  "lone_surrogate (a # b # cs) =
     ((of_char a = (237::nat) \<and> 160 \<le> (of_char b :: nat) \<and> (of_char b :: nat) \<le> 191) \<or>
      lone_surrogate (b # cs))"
| "lone_surrogate cs = False"

fun encodable :: "json \<Rightarrow> bool" where
  "encodable (JStr s) = (\<not> lone_surrogate s)"
| "encodable (JArr xs) = list_all encodable xs"
| "encodable (JObj kvs) = list_all (\<lambda>kv. \<not> lone_surrogate (fst kv) \<and> encodable (snd kv)) kvs"
| "encodable j = True"

section \<open>HTTP through the tunnel's local port\<close>

text \<open>
  A call is kept by the arguments its URL is formatted from: the local port, the path and
  the JSON body (if any) for a GET; the local port, \<^verbatim>\<open>index\<close>, \<^verbatim>\<open>doc_id\<close> and the JSON body
  for the PUT to \<^verbatim>\<open>http://localhost:{port}/{index}/_doc/{doc_id}\<close>.
\<close>

datatype http_call =
    HttpGet int string "json option"
  | HttpPut int json json json

record response =
  status :: int
  content_type :: string
  body_json :: "json option"
  body_text :: string

text \<open>
  What \<^verbatim>\<open>requests.get\<close> or \<^verbatim>\<open>requests.put\<close> does: it returns a response or raises.
  \<open>OtherRequestException\<close> stands for the remaining subclasses of
  \<^verbatim>\<open>requests.exceptions.RequestException\<close>, \<open>OtherException\<close> for anything else.
\<close>

datatype http_exc = ConnectionError | Timeout | OtherRequestException | OtherException

datatype http_result = Response response | Raises http_exc

text \<open>
  What a script does to the world, in the order it does it. A file written is kept with
  what was written: the dumped JSON value, the text, or (\<open>Incomplete\<close>) whatever was written
  before the write raised.
\<close>

datatype file_content = JsonDump json | Text string | Incomplete

datatype event =
    Http http_call
  | Sleep nat
  | Wrote string file_content
  | SshConnect
  | StartWorker
  | ConnectEx int
  | CloseListener
  | JoinWorker
  | CloseSsh
  | Popen
  | Communicate
  | Terminate
  | WaitProc
  | Kill

text \<open>The far side: its answer to a call may depend on everything done before.\<close>

type_synonym http_oracle = "event list \<Rightarrow> http_call \<Rightarrow> http_result"

text \<open>\<^verbatim>\<open>response.raise_for_status()\<close> raises HTTPError for a 4xx or 5xx status.\<close>

definition raise_for_status :: "response \<Rightarrow> bool" where
  "raise_for_status r \<longleftrightarrow> 400 \<le> status r \<and> status r < 600"

section \<open>Restore: \<^verbatim>\<open>restore_alerts-reports.py\<close>\<close>

text \<open>
  \<^verbatim>\<open>_restore_single_item\<close>. The second component is the trace of what was done so far.
  Both handlers format \<^verbatim>\<open>doc_id\<close> into their log line; when \<^verbatim>\<open>item.get\<close> itself raises,
  \<^verbatim>\<open>doc_id\<close> has not been assigned, so the handler raises UnboundLocalError, which leaves
  the function.
\<close>

definition restore_single_item ::
  "http_oracle \<Rightarrow> int \<Rightarrow> json \<Rightarrow> event list \<Rightarrow> (py_exc + bool) \<times> event list" where
  "restore_single_item http port item tr =
     (case py_get item ''_index'' of
        Inl e \<Rightarrow> (Inl UnboundLocalError, tr)
      | Inr index \<Rightarrow>
     (case py_get item ''_id'' of
        Inl e \<Rightarrow> (Inl UnboundLocalError, tr)
      | Inr doc_id \<Rightarrow>
     (case py_get item ''_source'' of
        Inl e \<Rightarrow> (Inr False, tr)
      | Inr source \<Rightarrow>
        if \<not> (truthy index \<and> truthy doc_id \<and> truthy source) then (Inr False, tr)
        else
          let call = HttpPut port index doc_id source;
              tr' = tr @ [Http call]
          in (case http tr call of
                Raises e \<Rightarrow> (Inr False, tr')
              | Response r \<Rightarrow>
                  if raise_for_status r then (Inr False, tr')
                  else (case body_json r of
                          None \<Rightarrow> (Inr False, tr')
                        | Some result \<Rightarrow>
                            (case py_get_default result ''result'' (JStr ''unknown'') of
                               Inl e \<Rightarrow> (Inr False, tr')
                             | Inr action \<Rightarrow> (Inr True, tr')))))))"

text \<open>
  The \<^verbatim>\<open>for item in hits\<close> loop of \<^verbatim>\<open>restore_from_file\<close>, with its two counters
  \<open>(success_count, failure_count)\<close>. An exception leaving \<^verbatim>\<open>_restore_single_item\<close>
  leaves the loop.
\<close>

fun restore_items ::
  "http_oracle \<Rightarrow> int \<Rightarrow> json list \<Rightarrow> nat \<times> nat \<Rightarrow> event list
     \<Rightarrow> (py_exc + nat \<times> nat) \<times> event list" where
  "restore_items http port [] (s, f) tr = (Inr (s, f), tr)"
| "restore_items http port (item # rest) (s, f) tr =
     (case restore_single_item http port item tr of
        (Inl e, tr') \<Rightarrow> (Inl e, tr')
      | (Inr ok, tr') \<Rightarrow>
          if ok then restore_items http port rest (s + 1, f) tr'
          else restore_items http port rest (s, f + 1) tr')"

text \<open>What opening and parsing the file at a path gives.\<close>

datatype file_read = NotFound | JSONDecodeError | ReadError | Parsed json

type_synonym file_system = "string \<Rightarrow> file_read"

text \<open>
  \<^verbatim>\<open>restore_from_file\<close>. Every exception is caught by its own handlers and gives False.
  For a top-level value that is not a dict, \<^verbatim>\<open>'hits' not in json_data\<close> raises TypeError
  (a number, a bool, \<^verbatim>\<open>None\<close>), or finds no \<^verbatim>\<open>'hits'\<close>, or the following
  \<^verbatim>\<open>json_data.get\<close> raises AttributeError (a list or a string): False in each case.
\<close>

definition restore_from_file ::
  "http_oracle \<Rightarrow> int \<Rightarrow> file_system \<Rightarrow> string \<Rightarrow> event list \<Rightarrow> bool \<times> event list" where
  "restore_from_file http port files json_file_path tr =
     (case files json_file_path of
        NotFound \<Rightarrow> (False, tr)
      | JSONDecodeError \<Rightarrow> (False, tr)
      | ReadError \<Rightarrow> (False, tr)
      | Parsed json_data \<Rightarrow>
        (case json_data of
           JObj kvs \<Rightarrow>
             (case map_of kvs ''hits'' of
                None \<Rightarrow> (False, tr)
              | Some h \<Rightarrow>
                (case py_get_default h ''hits'' (JArr []) of
                   Inl e \<Rightarrow> (False, tr)
                 | Inr hits \<Rightarrow>
                     if \<not> truthy hits then (True, tr)
                     else (case py_iter hits of
                             Inl e \<Rightarrow> (False, tr)
                           | Inr items \<Rightarrow>
                               (case restore_items http port items (0, 0) tr of
                                  (Inl e, tr') \<Rightarrow> (False, tr')
                                | (Inr (success_count, failure_count), tr') \<Rightarrow>
                                    (failure_count = 0, tr')))))
         | _ \<Rightarrow> (False, tr)))"

section \<open>Paths\<close>

text \<open>\<^verbatim>\<open>os.path.join\<close> and \<^verbatim>\<open>os.path.basename\<close> on POSIX, and \<^verbatim>\<open>str.startswith\<close>.\<close>

definition path_join :: "string \<Rightarrow> string \<Rightarrow> string" where
  "path_join a b =
     (if b \<noteq> [] \<and> hd b = CHR ''/'' then b
      else if a = [] \<or> last a = CHR ''/'' then a @ b
      else a @ ''/'' @ b)"

definition basename :: "string \<Rightarrow> string" where
  "basename p = rev (takeWhile (\<lambda>c. c \<noteq> CHR ''/'') (rev p))"

definition startswith :: "string \<Rightarrow> string \<Rightarrow> bool" where
  "startswith s p \<longleftrightarrow> take (length p) s = p"

section \<open>The two scripts' objects and their surroundings\<close>

text \<open>
  An attribute that holds an object is \<open>Some\<close> of the object's state, \<^verbatim>\<open>None\<close> is \<open>None\<close>.
\<close>

datatype client_state = Unconnected | Connected
datatype thread_state = Alive | Finished
datatype listener = Listening
datatype proc_state = Running | Exited

record script =
  local_port :: int

record collector = script +
  output_dir :: string
  timestamp :: string
  ssh_client :: "client_state option"
  tunnel_thread :: "thread_state option"
  tunnel_server :: "listener option"
  tunnel_running :: bool

record restorer = script +
  input_dir :: string
  tunnel_process :: "proc_state option"

datatype ssh_exc = AuthenticationException | SSHException | SocketError | OtherSshError

datatype ssh_result = SshConnected | SshRaises ssh_exc

text \<open>
  What the surroundings answer. \<open>writable\<close>: \<^verbatim>\<open>open(path, 'w')\<close> succeeds.
  \<open>write_completes\<close>: writing the given content to the opened file and closing it raise
  nothing of their own (no OSError of a full disk, no RecursionError of \<^verbatim>\<open>json.dump\<close> on a
  value nested too deep).
  \<open>summary_prints\<close>: the \<^verbatim>\<open>print\<close> calls of \<^verbatim>\<open>main\<close>'s summary of the given result mapping
  succeed (they write the glyphs U+2713 and U+2717, which raises UnicodeEncodeError on a
  standard output whose encoding lacks them).
  For the collector: what \<^verbatim>\<open>ssh_client.connect\<close> does; whether the worker thread's \<^verbatim>\<open>bind\<close>
  succeeds; whether the worker thread has finished when \<^verbatim>\<open>is_alive()\<close> is asked.
  For the restorer: whether \<^verbatim>\<open>subprocess.Popen\<close> starts the process; whether the process
  has exited when \<^verbatim>\<open>poll()\<close> is asked; whether \<^verbatim>\<open>wait(timeout=5)\<close> times out; the files
  read; the time stamp of \<^verbatim>\<open>datetime.now()\<close>.
\<close>

record env =
  http :: http_oracle
  writable :: "string \<Rightarrow> bool"
  write_completes :: "string \<Rightarrow> file_content \<Rightarrow> bool"
  summary_prints :: "(string \<times> bool) list \<Rightarrow> bool"

record collect_env = env +
  ssh_connect :: ssh_result
  bind_ok :: bool
  worker_finished :: "event list \<Rightarrow> bool"

record restore_env = env +
  popen_ok :: bool
  exited :: "event list \<Rightarrow> bool"
  wait_times_out :: "event list \<Rightarrow> bool"
  files :: file_system
  now :: string

section \<open>Collect: \<^verbatim>\<open>collect_alerts-reports.py\<close>\<close>

text \<open>
  \<^verbatim>\<open>SSHTunnelCollector.cleanup_tunnel\<close>. Every \<^verbatim>\<open>close\<close> and the \<^verbatim>\<open>join\<close> sit in a
  \<^verbatim>\<open>try ... except: pass\<close>. The thread attribute is cleared only when the thread was alive.
\<close>

definition collector_cleanup_tunnel ::
  "collect_env \<Rightarrow> collector \<times> event list \<Rightarrow> collector \<times> event list" where
  "collector_cleanup_tunnel e s =
     (let (c, tr) = s;
          c1 = c\<lparr>tunnel_running := False\<rparr>;
          (c2, tr2) = (case tunnel_server c1 of
                         None \<Rightarrow> (c1, tr)
                       | Some l \<Rightarrow> (c1\<lparr>tunnel_server := None\<rparr>, tr @ [CloseListener]));
          (c3, tr3) = (case tunnel_thread c2 of
                         None \<Rightarrow> (c2, tr2)
                       | Some Finished \<Rightarrow> (c2, tr2)
                       | Some Alive \<Rightarrow>
                           if worker_finished e tr2 then (c2\<lparr>tunnel_thread := Some Finished\<rparr>, tr2)
                           else (c2\<lparr>tunnel_thread := None\<rparr>, tr2 @ [JoinWorker]))
      in (case ssh_client c3 of
            None \<Rightarrow> (c3, tr3)
          | Some cl \<Rightarrow> (c3\<lparr>ssh_client := None\<rparr>, tr3 @ [CloseSsh])))"

text \<open>The throwaway request of the readiness test: \<^verbatim>\<open>requests.get(f'http://localhost:{port}')\<close>.\<close>

definition probe :: "int \<Rightarrow> http_call" where
  "probe port = HttpGet port [] None"

text \<open>
  \<^verbatim>\<open>SSHTunnelCollector.create_ssh_tunnel\<close>. The worker thread binds the local port while
  this thread sleeps: when the bind succeeds it stores the socket in \<^verbatim>\<open>tunnel_server\<close> and
  waits in its accept loop, when it fails the worker ends. Starting the thread and creating
  the socket of the diagnostic port test are taken to succeed.
\<close>

definition collector_create_ssh_tunnel ::
  "collect_env \<Rightarrow> collector \<times> event list \<Rightarrow> bool \<times> collector \<times> event list" where
  "collector_create_ssh_tunnel e s =
     (let (c, tr) = s;
          c1 = c\<lparr>ssh_client := Some Unconnected\<rparr>;
          tr1 = tr @ [SshConnect]
      in (case ssh_connect e of
            SshRaises x \<Rightarrow> (False, c1, tr1)
          | SshConnected \<Rightarrow>
              let c2 = c1\<lparr>ssh_client := Some Connected, tunnel_running := True,
                          tunnel_thread := Some Alive\<rparr>;
                  c3 = (if bind_ok e then c2\<lparr>tunnel_server := Some Listening\<rparr>
                        else c2\<lparr>tunnel_thread := Some Finished\<rparr>);
                  tr3 = tr1 @ [StartWorker, Sleep 3];
                  tr4 = tr3 @ [Http (probe (local_port c3))]
              in (case http e tr3 (probe (local_port c3)) of
                    Response r \<Rightarrow> (True, c3, tr4)
                  | Raises ConnectionError \<Rightarrow>
                      (False, collector_cleanup_tunnel e (c3, tr4 @ [ConnectEx (local_port c3)]))
                  | Raises x \<Rightarrow> (False, collector_cleanup_tunnel e (c3, tr4)))))"

text \<open>
  \<^verbatim>\<open>_execute_request\<close>: one GET with the query as its JSON body; the response is written to
  the output file as it came. Opening the file truncates it before \<^verbatim>\<open>response.json()\<close>
  is called; every exception, also one of \<^verbatim>\<open>response.json()\<close>, \<^verbatim>\<open>json.dump\<close> or \<^verbatim>\<open>f.write\<close>,
  is caught and gives False. A missing \<^verbatim>\<open>content-type\<close> header is the empty string.
\<close>

definition write_file ::
  "'e env_scheme \<Rightarrow> string \<Rightarrow> file_content \<Rightarrow> bool \<Rightarrow> event list \<Rightarrow> bool \<times> event list" where
  "write_file e path content encodes tr =
     (if encodes \<and> write_completes e path content then (True, tr @ [Wrote path content])
      else (False, tr @ [Wrote path Incomplete]))"

definition execute_request ::
  "collect_env \<Rightarrow> collector \<Rightarrow> string \<Rightarrow> json \<Rightarrow> string \<Rightarrow> event list \<Rightarrow> bool \<times> event list" where
  "execute_request e c endpoint query output_file tr =
     (let call = HttpGet (local_port c) (endpoint @ ''?pretty'') (Some query);
          tr1 = tr @ [Http call]
      in (case http e tr call of
            Raises x \<Rightarrow> (False, tr1)
          | Response r \<Rightarrow>
              if raise_for_status r then (False, tr1)
              else if \<not> writable e output_file then (False, tr1)
              else if startswith (content_type r) ''application/json'' then
                (case body_json r of
                   None \<Rightarrow> (False, tr1 @ [Wrote output_file (Text [])])
                 | Some j \<Rightarrow> write_file e output_file (JsonDump j) (encodable j) tr1)
              else write_file e output_file (Text (body_text r)) True tr1))"

definition match_all_query :: json where
  "match_all_query = JObj [(''query'', JObj [(''match_all'', JObj [])]), (''size'', JInt 9999)]"

definition collect_reports :: "collect_env \<Rightarrow> collector \<Rightarrow> event list \<Rightarrow> bool \<times> event list" where
  "collect_reports e c tr =
     execute_request e c
       ''/vrm-scheduled-report-definition-vrm-ty-vrm-scheduled-report-definition/_search''
       match_all_query
       (path_join (output_dir c) (''reports_'' @ timestamp c @ ''.json'')) tr"

definition collect_alerts :: "collect_env \<Rightarrow> collector \<Rightarrow> event list \<Rightarrow> bool \<times> event list" where
  "collect_alerts e c tr =
     execute_request e c ''/rt-alert-def-vrm-ty-rt-alert-def-vrm/_search''
       match_all_query
       (path_join (output_dir c) (''alerts_'' @ timestamp c @ ''.json'')) tr"

text \<open>The result mapping, a dict, in insertion order.\<close>

type_synonym results = "(string \<times> bool) list"

definition collect_all :: "collect_env \<Rightarrow> collector \<times> event list \<Rightarrow> results \<times> collector \<times> event list" where
  "collect_all e s =
     (case collector_create_ssh_tunnel e s of
        (False, s1) \<Rightarrow> ([(''reports'', False), (''alerts'', False)], s1)
      | (True, c1, tr1) \<Rightarrow>
          let (reports, tr2) = collect_reports e c1 tr1;
              (alerts, tr3) = collect_alerts e c1 tr2
          in ([(''reports'', reports), (''alerts'', alerts)],
              collector_cleanup_tunnel e (c1, tr3)))"

text \<open>\<^verbatim>\<open>sys.exit(0) if all(results.values()) else sys.exit(1)\<close>.\<close>

definition exit_code :: "results \<Rightarrow> int" where
  "exit_code rs = (if list_all snd rs then 0 else 1)"

text \<open>
  The end of either \<^verbatim>\<open>main\<close>: the summary is printed inside the \<^verbatim>\<open>try\<close>, then the exit status
  is chosen. A \<^verbatim>\<open>print\<close> that raises is caught by \<^verbatim>\<open>except Exception\<close> and the process exits
  with 1, whatever the mapping holds.
\<close>

definition summary_and_exit :: "'e env_scheme \<Rightarrow> results \<Rightarrow> int" where
  "summary_and_exit e rs = (if summary_prints e rs then exit_code rs else 1)"

text \<open>
  \<^verbatim>\<open>main\<close> of the collector: the exit status, the result mapping when one was made, and the
  final state. The constructor raises when the configuration lacks a required option
  (\<open>None\<close> here); \<^verbatim>\<open>main\<close> then exits with 1.
\<close>

definition collect_main ::
  "collect_env \<Rightarrow> collector option \<Rightarrow> int \<times> results option \<times> (collector \<times> event list) option" where
  "collect_main e init =
     (case init of
        None \<Rightarrow> (1, None, None)
      | Some c \<Rightarrow>
          let (rs, s) = collect_all e (c, []) in (summary_and_exit e rs, Some rs, Some s))"

section \<open>Restore: tunnel, file selection and \<^verbatim>\<open>main\<close>\<close>

text \<open>
  \<^verbatim>\<open>SSHTunnelRestorer.cleanup_tunnel\<close>: a running process is terminated, killed when it
  does not end within the wait, and the attribute cleared; a process that has exited is
  left in the attribute.
\<close>

definition restorer_cleanup_tunnel ::
  "restore_env \<Rightarrow> restorer \<times> event list \<Rightarrow> restorer \<times> event list" where
  "restorer_cleanup_tunnel e s =
     (let (r, tr) = s
      in (case tunnel_process r of
            None \<Rightarrow> (r, tr)
          | Some Exited \<Rightarrow> (r, tr)
          | Some Running \<Rightarrow>
              if exited e tr then (r\<lparr>tunnel_process := Some Exited\<rparr>, tr)
              else
                let tr1 = tr @ [Terminate, WaitProc]
                in (r\<lparr>tunnel_process := None\<rparr>,
                    if wait_times_out e tr1 then tr1 @ [Kill] else tr1)))"

text \<open>
  \<^verbatim>\<open>SSHTunnelRestorer.create_ssh_tunnel\<close>. Only a
  \<^verbatim>\<open>requests.exceptions.RequestException\<close> of the test request reaches the handler that
  cleans up; any other exception is caught by the outer handler, which returns False.
\<close>

definition restorer_create_ssh_tunnel ::
  "restore_env \<Rightarrow> restorer \<times> event list \<Rightarrow> bool \<times> restorer \<times> event list" where
  "restorer_create_ssh_tunnel e s =
     (let (r, tr) = s
      in if \<not> popen_ok e then (False, r, tr @ [Popen])
         else
           let r1 = r\<lparr>tunnel_process := Some Running\<rparr>;
               tr1 = tr @ [Popen, Sleep 3]
           in if exited e tr1 then (False, r1\<lparr>tunnel_process := Some Exited\<rparr>, tr1 @ [Communicate])
              else
                let tr2 = tr1 @ [Http (probe (local_port r1))]
                in (case http e tr1 (probe (local_port r1)) of
                      Response resp \<Rightarrow> (True, r1, tr2)
                    | Raises OtherException \<Rightarrow> (False, r1, tr2)
                    | Raises x \<Rightarrow> (False, restorer_cleanup_tunnel e (r1, tr2))))"

text \<open>
  \<^verbatim>\<open>restore_alerts\<close> and \<^verbatim>\<open>restore_reports\<close>: a name with a path separator is used as it is,
  any other is looked up in the input directory.
\<close>

definition input_path :: "restorer \<Rightarrow> string \<Rightarrow> string" where
  "input_path r name = (if CHR ''/'' \<in> set name then name else path_join (input_dir r) name)"

definition restore_alerts ::
  "restore_env \<Rightarrow> restorer \<Rightarrow> string option \<Rightarrow> event list \<Rightarrow> bool \<times> event list" where
  "restore_alerts e r alerts_filename tr =
     restore_from_file (http e) (local_port r) (files e)
       (input_path r (case alerts_filename of None \<Rightarrow> ''alerts.json'' | Some n \<Rightarrow> n)) tr"

definition restore_reports ::
  "restore_env \<Rightarrow> restorer \<Rightarrow> string option \<Rightarrow> event list \<Rightarrow> bool \<times> event list" where
  "restore_reports e r reports_filename tr =
     restore_from_file (http e) (local_port r) (files e)
       (input_path r (case reports_filename of None \<Rightarrow> ''reports.json'' | Some n \<Rightarrow> n)) tr"

text \<open>\<^verbatim>\<open>extract_definitions_only\<close>: no HTTP; the truthy \<^verbatim>\<open>_source\<close> values are written out.\<close>

fun extract_sources :: "json list \<Rightarrow> py_exc + json list" where
  "extract_sources [] = Inr []"
| "extract_sources (item # rest) =
     (case py_get item ''_source'' of
        Inl e \<Rightarrow> Inl e
      | Inr source \<Rightarrow>
          (case extract_sources rest of
             Inl e \<Rightarrow> Inl e
           | Inr definitions \<Rightarrow> Inr (if truthy source then source # definitions else definitions)))"

definition extract_definitions_only ::
  "restore_env \<Rightarrow> string \<Rightarrow> string \<Rightarrow> event list \<Rightarrow> bool \<times> event list" where
  "extract_definitions_only e json_file_path output_file_path tr =
     (case files e json_file_path of
        Parsed (JObj kvs) \<Rightarrow>
          (case map_of kvs ''hits'' of
             None \<Rightarrow> (False, tr)
           | Some h \<Rightarrow>
             (case py_get_default h ''hits'' (JArr []) of
                Inl x \<Rightarrow> (False, tr)
              | Inr hits \<Rightarrow>
                  if \<not> truthy hits then (True, tr)
                  else (case py_iter hits of
                          Inl x \<Rightarrow> (False, tr)
                        | Inr items \<Rightarrow>
                            (case extract_sources items of
                               Inl x \<Rightarrow> (False, tr)
                             | Inr definitions \<Rightarrow>
                                 let out = JObj
                                        [(''definitions'', JArr definitions),
                                         (''count'', JInt (int (length definitions))),
                                         (''extracted_from'', JStr (basename json_file_path))]
                                 in if \<not> writable e output_file_path then (False, tr)
                                    else write_file e output_file_path (JsonDump out)
                                           (encodable out) tr))))
      | _ \<Rightarrow> (False, tr))"

definition restore_all ::
  "restore_env \<Rightarrow> restorer \<times> event list \<Rightarrow> string option \<Rightarrow> string option
     \<Rightarrow> results \<times> restorer \<times> event list" where
  "restore_all e s alerts_filename reports_filename =
     (case restorer_create_ssh_tunnel e s of
        (False, s1) \<Rightarrow> ([(''reports'', False), (''alerts'', False)], s1)
      | (True, r1, tr1) \<Rightarrow>
          let (alerts, tr2) = restore_alerts e r1 alerts_filename tr1;
              (reports, tr3) = restore_reports e r1 reports_filename tr2
          in ([(''alerts'', alerts), (''reports'', reports)],
              restorer_cleanup_tunnel e (r1, tr3)))"

text \<open>
  The parsed command line; an option that was not given is \<^verbatim>\<open>None\<close>. \<open>file_arg\<close> is
  \<^verbatim>\<open>args.file\<close>.
\<close>

record args =
  file_arg :: "string option"
  alerts :: "string option"
  reports :: "string option"
  alerts_source :: "string option"
  reports_source :: "string option"

text \<open>\<^verbatim>\<open>if args.x:\<close> holds for a string that is given and not empty.\<close>

definition arg :: "string option \<Rightarrow> string" where
  "arg x = (case x of None \<Rightarrow> [] | Some v \<Rightarrow> v)"

text \<open>
  The three branches of \<^verbatim>\<open>main\<close> that open the tunnel themselves: \<^verbatim>\<open>sys.exit(1)\<close> when it
  cannot be opened, else the one operation, with the tunnel cleaned up in \<^verbatim>\<open>finally\<close>, then
  the summary and the exit status.
\<close>

definition with_tunnel ::
  "restore_env \<Rightarrow> restorer \<Rightarrow> string \<Rightarrow> (restorer \<Rightarrow> event list \<Rightarrow> bool \<times> event list)
     \<Rightarrow> int \<times> results option \<times> (restorer \<times> event list) option" where
  "with_tunnel e r key operation =
     (case restorer_create_ssh_tunnel e (r, []) of
        (False, s1) \<Rightarrow> (1, None, Some s1)
      | (True, r1, tr1) \<Rightarrow>
          let (ok, tr2) = operation r1 tr1;
              rs = [(key, ok)]
          in (summary_and_exit e rs, Some rs, Some (restorer_cleanup_tunnel e (r1, tr2))))"

text \<open>
  \<^verbatim>\<open>main\<close> of the restorer: the exit status, the result mapping when one was made, and the
  final state. The constructor raises when the configuration lacks a required option
  (\<open>None\<close> here); \<^verbatim>\<open>main\<close> then exits with 1.
\<close>

definition restore_main ::
  "restore_env \<Rightarrow> restorer option \<Rightarrow> args
     \<Rightarrow> int \<times> results option \<times> (restorer \<times> event list) option" where
  "restore_main e init a =
     (case init of
        None \<Rightarrow> (1, None, None)
      | Some r \<Rightarrow>
          if arg (file_arg a) \<noteq> [] then
            with_tunnel e r (basename (arg (file_arg a)))
              (\<lambda>r1. restore_from_file (http e) (local_port r1) (files e) (arg (file_arg a)))
          else if arg (alerts_source a) \<noteq> [] then
            let (ok, tr) = extract_definitions_only e (input_path r (arg (alerts_source a)))
                             (path_join (input_dir r) (''alerts_definitions_'' @ now e @ ''.json'')) [];
                rs = [(''alerts_extract'', ok)]
            in (summary_and_exit e rs, Some rs, Some (r, tr))
          else if arg (reports_source a) \<noteq> [] then
            let (ok, tr) = extract_definitions_only e (input_path r (arg (reports_source a)))
                             (path_join (input_dir r) (''reports_definitions_'' @ now e @ ''.json'')) [];
                rs = [(''reports_extract'', ok)]
            in (summary_and_exit e rs, Some rs, Some (r, tr))
          else if arg (alerts a) \<noteq> [] \<and> arg (reports a) \<noteq> [] then
            let (rs, s) = restore_all e (r, []) (alerts a) (reports a)
            in (summary_and_exit e rs, Some rs, Some s)
          else if arg (alerts a) \<noteq> [] then
            with_tunnel e r ''alerts'' (\<lambda>r1. restore_alerts e r1 (alerts a))
          else if arg (reports a) \<noteq> [] then
            with_tunnel e r ''reports'' (\<lambda>r1. restore_reports e r1 (reports a))
          else
            let (rs, s) = restore_all e (r, []) None None
            in (summary_and_exit e rs, Some rs, Some s))"

section \<open>The worker thread of the collector's tunnel\<close>

text \<open>
  One pass of the accept loop, as the surroundings decide it: whether \<^verbatim>\<open>cleanup_tunnel\<close>
  (another thread) clears \<^verbatim>\<open>tunnel_running\<close> while \<^verbatim>\<open>accept\<close> waits, and what \<^verbatim>\<open>accept\<close>
  does: it returns a connection, raises \<^verbatim>\<open>socket.timeout\<close>, or raises something else.
\<close>

datatype accept_result = Accepted nat | AcceptTimeout | AcceptError

record accept_tick =
  stop_requested :: bool
  accepted :: accept_result

datatype worker_event =
    Listen int
  | WaitAccept nat
  | StartHandler nat
  | LogError string
  | CloseServer

datatype worker_end = BindFailed | Stopped | Broke | Waiting

text \<open>
  \<^verbatim>\<open>while self.tunnel_running:\<close> of \<^verbatim>\<open>_tunnel_worker\<close>, over the passes given; \<open>Waiting\<close>
  when they are used up and the loop would wait again. \<open>WaitAccept 1\<close> is
  \<^verbatim>\<open>settimeout(1.0)\<close> followed by \<^verbatim>\<open>accept()\<close>. The result carries the flag as last read.
\<close>

fun accept_loop ::
  "accept_tick list \<Rightarrow> bool \<Rightarrow> worker_event list \<Rightarrow> worker_end \<times> bool \<times> worker_event list" where
  "accept_loop ts False tr = (Stopped, False, tr)"
| "accept_loop [] True tr = (Waiting, True, tr)"
| "accept_loop (t # ts) True tr =
     (let tr1 = tr @ [WaitAccept 1];
          running = \<not> stop_requested t
      in (case accepted t of
            Accepted conn \<Rightarrow> accept_loop ts running (tr1 @ [StartHandler conn])
          | AcceptTimeout \<Rightarrow> accept_loop ts running tr1
          | AcceptError \<Rightarrow>
              (Broke, running,
               if running then tr1 @ [LogError ''Error accepting tunnel connection''] else tr1)))"

text \<open>
  \<^verbatim>\<open>_tunnel_worker\<close>. After a successful bind the worker stores the socket in
  \<^verbatim>\<open>tunnel_server\<close>, and its \<^verbatim>\<open>finally\<close> closes whatever the attribute holds when the loop has
  ended. \<open>cleared\<close>: \<^verbatim>\<open>cleanup_tunnel\<close> (another thread) has closed the socket and set the
  attribute to \<^verbatim>\<open>None\<close> before the \<^verbatim>\<open>finally\<close> reads it. When the bind fails nothing was stored.
\<close>

definition tunnel_worker ::
  "bool \<Rightarrow> int \<Rightarrow> accept_tick list \<Rightarrow> bool \<Rightarrow> bool \<Rightarrow> worker_end \<times> worker_event list" where
  "tunnel_worker bound port ts running cleared =
     (if \<not> bound then (BindFailed, [LogError ''Tunnel worker error''])
      else (case accept_loop ts running [Listen port] of
              (Waiting, run, tr) \<Rightarrow> (Waiting, tr)
            | (ending, run, tr) \<Rightarrow> (ending, if cleared then tr else tr @ [CloseServer])))"

section \<open>Forwarding one connection\<close>

text \<open>
  The two endpoints of a forwarded connection. For each side: everything its peer has sent
  so far, the part of it that waits unread in the socket, whether the peer has closed, and
  what the forwarder's \<^verbatim>\<open>send\<close> calls have delivered to it.
\<close>

record relay =
  client_sent :: string
  client_in :: string
  client_eof :: bool
  to_client :: string
  channel_sent :: string
  channel_in :: string
  channel_eof :: bool
  to_channel :: string

datatype io_call = Select | ClientRecv | ChannelSend | ChannelRecv | ClientSend

text \<open>
  What the surroundings do during one pass of the loop: the bytes each peer sends and
  whether it closes before \<^verbatim>\<open>select\<close> returns; how many bytes each \<^verbatim>\<open>send\<close> takes (the
  number \<^verbatim>\<open>send\<close> returns: \<^verbatim>\<open>socket.send\<close> and paramiko's \<^verbatim>\<open>Channel.send\<close> may take fewer
  bytes than they are given); and which call, if any, raises.
\<close>

record tick =
  client_sends :: string
  client_closes :: bool
  channel_sends :: string
  channel_closes :: bool
  channel_accepts :: nat
  client_accepts :: nat
  fault :: "io_call option"

datatype forward_end = ClientClosed | ChannelClosed | IOError | Forwarding | OpenFailed

definition arrive :: "tick \<Rightarrow> relay \<Rightarrow> relay" where
  "arrive t s =
     (let cs = (if client_eof s then [] else client_sends t);
          hs = (if channel_eof s then [] else channel_sends t)
      in s\<lparr>client_sent := client_sent s @ cs, client_in := client_in s @ cs,
            client_eof := client_eof s \<or> client_closes t,
            channel_sent := channel_sent s @ hs, channel_in := channel_in s @ hs,
            channel_eof := channel_eof s \<or> channel_closes t\<rparr>)"

text \<open>A socket is readable when bytes wait in it or its peer has closed.\<close>

definition client_readable :: "relay \<Rightarrow> bool" where
  "client_readable s \<longleftrightarrow> client_in s \<noteq> [] \<or> client_eof s"

definition channel_readable :: "relay \<Rightarrow> bool" where
  "channel_readable s \<longleftrightarrow> channel_in s \<noteq> [] \<or> channel_eof s"

text \<open>
  \<^verbatim>\<open>data = client_socket.recv(4096); if not data: break; channel.send(data)\<close>. The number
  that \<^verbatim>\<open>send\<close> returns is dropped, so the bytes it did not take are gone. \<open>Some\<close> is a
  \<^verbatim>\<open>break\<close> or an exception.
\<close>

definition client_to_channel :: "tick \<Rightarrow> relay \<Rightarrow> forward_end option \<times> relay" where
  "client_to_channel t s =
     (if fault t = Some ClientRecv then (Some IOError, s)
      else
        let data = take 4096 (client_in s);
            s1 = s\<lparr>client_in := drop 4096 (client_in s)\<rparr>
        in if data = [] then (Some ClientClosed, s1)
           else if fault t = Some ChannelSend then (Some IOError, s1)
           else (None, s1\<lparr>to_channel := to_channel s1 @ take (channel_accepts t) data\<rparr>))"

definition channel_to_client :: "tick \<Rightarrow> relay \<Rightarrow> forward_end option \<times> relay" where
  "channel_to_client t s =
     (if fault t = Some ChannelRecv then (Some IOError, s)
      else
        let data = take 4096 (channel_in s);
            s1 = s\<lparr>channel_in := drop 4096 (channel_in s)\<rparr>
        in if data = [] then (Some ChannelClosed, s1)
           else if fault t = Some ClientSend then (Some IOError, s1)
           else (None, s1\<lparr>to_client := to_client s1 @ take (client_accepts t) data\<rparr>))"

text \<open>
  The \<^verbatim>\<open>while True:\<close> loop of \<^verbatim>\<open>_handle_tunnel_connection\<close>, over the passes given;
  \<open>Forwarding\<close> when they are used up and the loop would wait again. The list \<^verbatim>\<open>ready\<close> is
  fixed when \<^verbatim>\<open>select\<close> returns; an empty list (the one-second timeout) starts the next pass.
\<close>

fun forward_loop :: "tick list \<Rightarrow> relay \<Rightarrow> forward_end \<times> relay" where
  "forward_loop [] s = (Forwarding, s)"
| "forward_loop (t # ts) s =
     (let s1 = arrive t s;
          client_ready = client_readable s1;
          channel_ready = channel_readable s1
      in if fault t = Some Select then (IOError, s1)
         else
           (case (if client_ready then client_to_channel t s1 else (None, s1)) of
              (Some ending, s2) \<Rightarrow> (ending, s2)
            | (None, s2) \<Rightarrow>
                (case (if channel_ready then channel_to_client t s2 else (None, s2)) of
                   (Some ending, s3) \<Rightarrow> (ending, s3)
                 | (None, s3) \<Rightarrow> forward_loop ts s3)))"

text \<open>
  \<^verbatim>\<open>_handle_tunnel_connection\<close>: the last two components say whether the client socket and
  the channel were closed by the \<^verbatim>\<open>finally\<close>. When \<^verbatim>\<open>open_channel\<close> raises there is no
  channel to close.
\<close>

definition handle_tunnel_connection ::
  "bool \<Rightarrow> tick list \<Rightarrow> relay \<Rightarrow> forward_end \<times> relay \<times> bool \<times> bool" where
  "handle_tunnel_connection channel_opened ts s =
     (if \<not> channel_opened then (OpenFailed, s, True, False)
      else (case forward_loop ts s of
              (Forwarding, s') \<Rightarrow> (Forwarding, s', False, False)
            | (ending, s') \<Rightarrow> (ending, s', True, True)))"

section \<open>Notions used to state the properties\<close>

text \<open>The same outcome of the item loop with one more failure counted.\<close>

definition count_failure ::
  "(py_exc + nat \<times> nat) \<times> event list \<Rightarrow> (py_exc + nat \<times> nat) \<times> event list" where
  "count_failure r =
     (case r of (Inl x, tr) \<Rightarrow> (Inl x, tr) | (Inr (s, f), tr) \<Rightarrow> (Inr (s, f + 1), tr))"

fun is_object :: "json \<Rightarrow> bool" where
  "is_object (JObj kvs) = True"
| "is_object _ = False"

text \<open>A document that lacks one of the three fields.\<close>

definition missing_field :: "(string \<times> json) list \<Rightarrow> bool" where
  "missing_field kvs \<longleftrightarrow>
     map_of kvs ''_index'' = None \<or> map_of kvs ''_id'' = None \<or> map_of kvs ''_source'' = None"

text \<open>The HTTP calls of a trace, in order.\<close>

fun http_calls :: "event list \<Rightarrow> http_call list" where
  "http_calls [] = []"
| "http_calls (Http call # es) = call # http_calls es"
| "http_calls (ev # es) = http_calls es"

text \<open>The top-level JSON value is an object with a \<^verbatim>\<open>hits\<close> key.\<close>

definition has_hits :: "json \<Rightarrow> bool" where
  "has_hits j \<longleftrightarrow> (case j of JObj kvs \<Rightarrow> map_of kvs ''hits'' \<noteq> None | _ \<Rightarrow> False)"

text \<open>The tunnel is used by every branch of the restorer's \<^verbatim>\<open>main\<close> but the two extractions.\<close>

definition uses_tunnel :: "args \<Rightarrow> bool" where
  "uses_tunnel a \<longleftrightarrow>
     arg (file_arg a) \<noteq> [] \<or> (arg (alerts_source a) = [] \<and> arg (reports_source a) = [])"

text \<open>The collector when the SSH connection stands and the worker thread has been started.\<close>

definition started :: "collect_env \<Rightarrow> collector \<Rightarrow> collector" where
  "started e c =
     (if bind_ok e
      then c\<lparr>ssh_client := Some Connected, tunnel_running := True, tunnel_thread := Some Alive,
             tunnel_server := Some Listening\<rparr>
      else c\<lparr>ssh_client := Some Connected, tunnel_running := True,
             tunnel_thread := Some Finished\<rparr>)"

text \<open>
  An exit status that agrees with the result mapping: 0 or 1, and 0 exactly when there is a
  mapping, all its entries are True and its summary could be printed.
\<close>

definition exit_agrees :: "'e env_scheme \<Rightarrow> int \<times> results option \<times> 'a \<Rightarrow> bool" where
  "exit_agrees e m \<longleftrightarrow>
     (fst m = 0 \<longleftrightarrow> (\<exists>rs. fst (snd m) = Some rs \<and> list_all snd rs \<and> summary_prints e rs)) \<and>
     (fst m = 0 \<or> fst m = 1)"

text \<open>Every \<^verbatim>\<open>send\<close> of the pass takes the whole chunk and no call raises.\<close>

definition takes_all :: "tick \<Rightarrow> bool" where
  "takes_all t \<longleftrightarrow> 4096 \<le> channel_accepts t \<and> 4096 \<le> client_accepts t \<and> fault t = None"

text \<open>On each side, what was delivered followed by what still waits is what the peer sent.\<close>

definition in_step :: "relay \<Rightarrow> bool" where
  "in_step s \<longleftrightarrow>
     to_channel s @ client_in s = client_sent s \<and> to_client s @ channel_in s = channel_sent s"

section \<open>Example inputs\<close>

text \<open>A document store that answers every call with 200 and \<^verbatim>\<open>{"result": "created"}\<close>.\<close>

definition created_server :: http_oracle where
  "created_server tr call =
     Response \<lparr>status = 200, content_type = ''application/json'',
               body_json = Some (JObj [(''result'', JStr ''created'')]), body_text = []\<rparr>"

text \<open>A complete document with the given id, the PUT that restores it, and two defective ones.\<close>

definition doc :: "string \<Rightarrow> json" where
  "doc i = JObj [(''_index'', JStr ''rt-alert-def-vrm''), (''_id'', JStr i),
                 (''_source'', JObj [(''name'', JStr i)])]"

definition put_doc :: "int \<Rightarrow> string \<Rightarrow> event" where
  "put_doc port i = Http (HttpPut port (JStr ''rt-alert-def-vrm'') (JStr i) (JObj [(''name'', JStr i)]))"

definition doc_without_id :: "(string \<times> json) list" where
  "doc_without_id = [(''_index'', JStr ''rt-alert-def-vrm''), (''_source'', JObj [(''name'', JStr ''x'')])]"

definition doc_empty_source :: "(string \<times> json) list" where
  "doc_empty_source = [(''_index'', JStr ''rt-alert-def-vrm''), (''_id'', JStr ''7''), (''_source'', JObj [])]"

text \<open>A search response, or a saved file, with the given hits.\<close>

definition envelope :: "json list \<Rightarrow> json" where
  "envelope hits =
     JObj [(''took'', JInt 3),
           (''hits'', JObj [(''total'', JInt (int (length hits))), (''hits'', JArr hits)])]"

text \<open>Servers: one answers every call with the given status and JSON body, one refuses.\<close>

definition json_server :: "int \<Rightarrow> json \<Rightarrow> http_oracle" where
  "json_server code j tr call =
     Response \<lparr>status = code, content_type = ''application/json; charset=UTF-8'',
               body_json = Some j, body_text = []\<rparr>"

definition refusing :: http_oracle where
  "refusing tr call = Raises ConnectionError"

text \<open>A server that answers every call with 200 and the given plain text.\<close>

definition text_server :: "string \<Rightarrow> http_oracle" where
  "text_server body tr call =
     Response \<lparr>status = 200, content_type = ''text/plain'', body_json = None, body_text = body\<rparr>"

text \<open>A document whose name is the one code point U+D800, a lone surrogate.\<close>

definition doc_with_surrogate :: json where
  "doc_with_surrogate =
     JObj [(''_index'', JStr ''rt-alert-def-vrm''), (''_id'', JStr ''s''),
           (''_source'', JObj [(''name'', JStr [CHR 0xED, CHR 0xA0, CHR 0x80])])]"

text \<open>
  Surroundings in which everything but the chosen part works, and the two scripts' objects
  as their constructors leave them and as a successful setup leaves them.
\<close>

definition collect_surroundings :: "http_oracle \<Rightarrow> ssh_result \<Rightarrow> collect_env" where
  "collect_surroundings h ssh =
     \<lparr>http = h, writable = (\<lambda>path. True), write_completes = (\<lambda>path content. True),
      summary_prints = (\<lambda>rs. True), ssh_connect = ssh,
      bind_ok = True, worker_finished = (\<lambda>tr. False)\<rparr>"

definition restore_surroundings :: "http_oracle \<Rightarrow> bool \<Rightarrow> file_system \<Rightarrow> restore_env" where
  "restore_surroundings h proc_starts fs =
     \<lparr>http = h, writable = (\<lambda>path. True), write_completes = (\<lambda>path content. True),
      summary_prints = (\<lambda>rs. True), popen_ok = proc_starts,
      exited = (\<lambda>tr. False), wait_times_out = (\<lambda>tr. False), files = fs,
      now = ''20240101_000000''\<rparr>"

definition new_collector :: collector where
  "new_collector =
     \<lparr>local_port = 9201, output_dir = ''json_files'', timestamp = ''20240101_000000'',
      ssh_client = None, tunnel_thread = None, tunnel_server = None, tunnel_running = False\<rparr>"

definition new_restorer :: restorer where
  "new_restorer = \<lparr>local_port = 9202, input_dir = ''json_files'', tunnel_process = None\<rparr>"

definition no_args :: args where
  "no_args = \<lparr>file_arg = None, alerts = None, reports = None, alerts_source = None,
              reports_source = None\<rparr>"

definition open_collector :: collector where
  "open_collector = new_collector\<lparr>ssh_client := Some Connected, tunnel_running := True,
                                   tunnel_thread := Some Alive, tunnel_server := Some Listening\<rparr>"

definition open_restorer :: restorer where
  "open_restorer = new_restorer\<lparr>tunnel_process := Some Running\<rparr>"

definition timing_out :: http_oracle where
  "timing_out tr call = Raises Timeout"

definition acknowledged :: json where
  "acknowledged = JObj [(''acknowledged'', JBool True)]"

text \<open>Passes of the accept loop and of the forwarding loop in which nothing is asked to stop.\<close>

definition failing_accept :: accept_tick where
  "failing_accept = \<lparr>stop_requested = False, accepted = AcceptError\<rparr>"

definition accepting :: "nat \<Rightarrow> accept_tick" where
  "accepting conn = \<lparr>stop_requested = False, accepted = Accepted conn\<rparr>"

definition accept_timeout :: accept_tick where
  "accept_timeout = \<lparr>stop_requested = False, accepted = AcceptTimeout\<rparr>"

definition idle :: relay where
  "idle = \<lparr>client_sent = [], client_in = [], client_eof = False, to_client = [],
           channel_sent = [], channel_in = [], channel_eof = False, to_channel = []\<rparr>"

definition quiet :: tick where
  "quiet = \<lparr>client_sends = [], client_closes = False, channel_sends = [], channel_closes = False,
            channel_accepts = 4096, client_accepts = 4096, fault = None\<rparr>"

section \<open>Restore: documents and batches\<close>

lemma single_missing:
  "missing_field kvs \<Longrightarrow> restore_single_item h p (JObj kvs) tr = (Inr False, tr)"
  by (auto simp: restore_single_item_def py_get_def missing_field_def split: option.splits)

lemma single_object_no_exc:
  "\<exists>ok tr'. restore_single_item h p (JObj kvs) tr = (Inr ok, tr')"
proof -
  have "\<not> isl (fst (restore_single_item h p (JObj kvs) tr))"
    by (simp add: restore_single_item_def py_get_def Let_def
             split: option.splits http_result.splits sum.splits)
  then show ?thesis
  proof (cases "restore_single_item h p (JObj kvs) tr")
    case (Pair a b)
    with \<open>\<not> isl (fst (restore_single_item h p (JObj kvs) tr))\<close>
    show ?thesis by (cases a) auto
  qed
qed

lemma items_more_failure:
  "restore_items h p items (s, Suc f) tr = count_failure (restore_items h p items (s, f) tr)"
proof (induction items arbitrary: s f tr)
  case Nil
  show ?case by (simp add: count_failure_def)
next
  case (Cons item rest)
  show ?case
  proof (cases "restore_single_item h p item tr")
    case (Pair r tr')
    show ?thesis
    proof (cases r)
      case (Inl x)
      with Pair show ?thesis by (simp add: count_failure_def)
    next
      case (Inr ok)
      with Pair Cons.IH [of s f tr'] Cons.IH [of "Suc s" f tr'] Cons.IH [of s "Suc f" tr']
      show ?thesis by simp
    qed
  qed
qed

lemma items_append:
  "restore_items h p (xs @ ys) cnt tr =
     (case restore_items h p xs cnt tr of
        (Inl x, tr') \<Rightarrow> (Inl x, tr')
      | (Inr cnt', tr') \<Rightarrow> restore_items h p ys cnt' tr')"
proof (induction xs arbitrary: cnt tr)
  case Nil
  show ?case by (cases cnt) simp
next
  case (Cons x xs)
  obtain s f where cnt: "cnt = (s, f)" by (cases cnt)
  show ?case
    by (cases "restore_single_item h p x tr")
       (simp add: cnt Cons.IH split: sum.splits)
qed

lemma items_counts:
  "list_all is_object items \<Longrightarrow>
   \<exists>s' f' tr'. restore_items h p items (s, f) tr = (Inr (s', f'), tr') \<and>
                s' + f' = s + f + length items"
proof (induction items arbitrary: s f tr)
  case Nil
  show ?case by simp
next
  case (Cons item rest)
  then obtain kvs where item: "item = JObj kvs" by (cases item) auto
  obtain ok tr1 where one: "restore_single_item h p item tr = (Inr ok, tr1)"
    using single_object_no_exc [of h p kvs tr] item by auto
  from Cons.prems have rest: "list_all is_object rest" by simp
  show ?case
  proof (cases ok)
    case True
    from Cons.IH [OF rest, of "s + 1" f tr1] one True show ?thesis by auto
  next
    case False
    from Cons.IH [OF rest, of s "f + 1" tr1] one False show ?thesis by auto
  qed
qed

lemma items_skip:
  assumes "missing_field kvs"
  shows "restore_items h p (pre @ JObj kvs # post) cnt tr =
         count_failure (restore_items h p (pre @ post) cnt tr)"
proof -
  have step: "restore_items h p (JObj kvs # post) (s, f) c =
              count_failure (restore_items h p post (s, f) c)" for s f c
    using single_missing [OF assms, of h p c] items_more_failure [of h p post s f c] by simp
  show ?thesis
  proof (cases "restore_items h p pre cnt tr")
    case (Pair r c)
    show ?thesis
    proof (cases r)
      case (Inl x)
      with Pair show ?thesis by (simp add: items_append count_failure_def)
    next
      case (Inr sf)
      obtain s f where sf: "sf = (s, f)" by (cases sf)
      have "restore_items h p (pre @ JObj kvs # post) cnt tr =
            restore_items h p (JObj kvs # post) (s, f) c"
        using Pair Inr sf by (simp only: items_append split: prod.splits sum.splits) simp
      moreover have "restore_items h p (pre @ post) cnt tr = restore_items h p post (s, f) c"
        using Pair Inr sf by (simp only: items_append split: prod.splits sum.splits) simp
      ultimately show ?thesis by (simp only: step)
    qed
  qed
qed

lemma restore_from_file_objects:
  assumes "fs path = Parsed (envelope items)" and "list_all is_object items"
  shows "\<exists>s f tr'. restore_items h p items (0, 0) tr = (Inr (s, f), tr') \<and>
           s + f = length items \<and> restore_from_file h p fs path tr = (f = 0, tr')"
proof -
  obtain s f tr' where run: "restore_items h p items (0, 0) tr = (Inr (s, f), tr')"
      and sum: "s + f = length items"
    using items_counts [OF assms(2), of h p 0 0 tr] by auto
  have "restore_from_file h p fs path tr = (f = 0, tr')"
  proof (cases "items = []")
    case True
    with run show ?thesis by (simp add: restore_from_file_def assms(1) envelope_def)
  next
    case False
    with run show ?thesis by (simp add: restore_from_file_def assms(1) envelope_def)
  qed
  with run sum show ?thesis by blast
qed

lemma single_doc_created:
  "restore_single_item created_server p (doc i) tr =
     (if i = [] then (Inr False, tr) else (Inr True, tr @ [put_doc p i]))"
  by (simp add: restore_single_item_def py_get_def doc_def created_server_def
        raise_for_status_def put_doc_def)

text \<open>
  A document that lacks \<^verbatim>\<open>_index\<close>, \<^verbatim>\<open>_id\<close> or \<^verbatim>\<open>_source\<close> is skipped: it counts as a failure
  and the trace is unchanged, so no HTTP request is made for it. By itself it does not touch
  the rest of the batch: the run over the batch is the run over the batch without it, with
  one more failure counted. When the other entries are JSON objects, every one of them is
  processed and counted.
\<close>

lemma document_with_missing_field_is_skipped:
  assumes "missing_field kvs"
  shows "restore_single_item h p (JObj kvs) tr = (Inr False, tr) \<and>
         restore_items h p (pre @ JObj kvs # post) cnt tr =
           count_failure (restore_items h p (pre @ post) cnt tr) \<and>
         (list_all is_object (pre @ post) \<longrightarrow>
            (\<exists>s f tr'. restore_items h p (pre @ JObj kvs # post) (0, 0) tr = (Inr (s, f), tr') \<and>
               s + f = length pre + 1 + length post \<and> 1 \<le> f))"
proof (intro conjI impI)
  show "restore_single_item h p (JObj kvs) tr = (Inr False, tr)"
    by (rule single_missing [OF assms])
  show "restore_items h p (pre @ JObj kvs # post) cnt tr =
          count_failure (restore_items h p (pre @ post) cnt tr)"
    by (rule items_skip [OF assms])
next
  assume objs: "list_all is_object (pre @ post)"
  obtain s f tr' where run: "restore_items h p (pre @ post) (0, 0) tr = (Inr (s, f), tr')"
      and sum: "s + f = 0 + 0 + length (pre @ post)"
    using items_counts [OF objs, of h p 0 0 tr] by blast
  have "restore_items h p (pre @ JObj kvs # post) (0, 0) tr = (Inr (s, f + 1), tr')"
    by (simp add: items_skip [OF assms] run count_failure_def)
  with sum show "\<exists>s f tr'. restore_items h p (pre @ JObj kvs # post) (0, 0) tr = (Inr (s, f), tr') \<and>
               s + f = length pre + 1 + length post \<and> 1 \<le> f"
    by auto
qed

text \<open>
  The scenario of three valid documents and one entry without \<^verbatim>\<open>_id\<close>: three successes, one
  failure, three PUT requests, and False for the file.
\<close>

lemma restore_three_valid_one_without_id:
  "restore_items created_server 9202 [doc ''a'', doc ''b'', JObj doc_without_id, doc ''c'']
       (0, 0) [] =
     (Inr (3, 1), [put_doc 9202 ''a'', put_doc 9202 ''b'', put_doc 9202 ''c'']) \<and>
   restore_from_file created_server 9202
       (\<lambda>path. Parsed (envelope [doc ''a'', doc ''b'', JObj doc_without_id, doc ''c'']))
       ''json_files/alerts.json'' [] =
     (False, [put_doc 9202 ''a'', put_doc 9202 ''b'', put_doc 9202 ''c''])"
proof -
  have m: "missing_field doc_without_id"
    by (simp add: missing_field_def doc_without_id_def)
  have one: "restore_single_item created_server 9202 (JObj doc_without_id) tr = (Inr False, tr)" for tr
    by (rule single_missing [OF m])
  have run: "restore_items created_server 9202
               [doc ''a'', doc ''b'', JObj doc_without_id, doc ''c''] (0, 0) [] =
             (Inr (3, 1), [put_doc 9202 ''a'', put_doc 9202 ''b'', put_doc 9202 ''c''])"
    by (simp add: single_doc_created one)
  then show ?thesis
    by (simp add: restore_from_file_def envelope_def)
qed

text \<open>
  C3. The batch holds a document without \<^verbatim>\<open>_id\<close>, then \<^verbatim>\<open>null\<close>, then a valid document, and
  the document store accepts every PUT. The document without \<^verbatim>\<open>_id\<close> is skipped with no
  request, but the loop then leaves with UnboundLocalError at the \<^verbatim>\<open>null\<close> entry: the valid
  document is neither processed nor counted, and the file gives False with no request at
  all. Without the \<^verbatim>\<open>null\<close> entry the same batch gives one success, one failure and one PUT.
\<close>

theorem restore_batch_aborts_after_skipped_document:
  "restore_single_item created_server 9202 (JObj doc_without_id) [] = (Inr False, []) \<and>
   restore_items created_server 9202 [JObj doc_without_id, JNull, doc ''c''] (0, 0) [] =
     (Inl UnboundLocalError, []) \<and>
   restore_from_file created_server 9202
       (\<lambda>path. Parsed (envelope [JObj doc_without_id, JNull, doc ''c'']))
       ''json_files/alerts.json'' [] = (False, []) \<and>
   restore_items created_server 9202 [JObj doc_without_id, doc ''c''] (0, 0) [] =
     (Inr (1, 1), [put_doc 9202 ''c''])"
proof -
  have m: "missing_field doc_without_id"
    by (simp add: missing_field_def doc_without_id_def)
  have one: "restore_single_item created_server 9202 (JObj doc_without_id) tr = (Inr False, tr)" for tr
    by (rule single_missing [OF m])
  have null: "restore_single_item created_server 9202 JNull tr = (Inl UnboundLocalError, tr)" for tr
    by (simp add: restore_single_item_def py_get_def)
  have run: "restore_items created_server 9202 [JObj doc_without_id, JNull, doc ''c''] (0, 0) [] =
               (Inl UnboundLocalError, [])"
    by (simp add: one null)
  have whole: "restore_from_file created_server 9202
       (\<lambda>path. Parsed (envelope [JObj doc_without_id, JNull, doc ''c'']))
       ''json_files/alerts.json'' [] = (False, [])"
    using run by (simp add: restore_from_file_def envelope_def)
  have rest: "restore_items created_server 9202 [JObj doc_without_id, doc ''c''] (0, 0) [] =
                (Inr (1, 1), [put_doc 9202 ''c''])"
    by (simp add: one single_doc_created)
  from one [of "[]"] run whole rest show ?thesis by blast
qed

text \<open>
  C10. The check is on truthiness: a document whose \<^verbatim>\<open>_source\<close> is the empty object, or
  whose \<^verbatim>\<open>_index\<close> or \<^verbatim>\<open>_id\<close> is the empty string, counts as a failure with no HTTP
  request, exactly as any document with a field missing does.
\<close>

theorem restore_falsy_field_treated_as_missing:
  assumes "map_of kvs ''_source'' = Some (JObj []) \<or> map_of kvs ''_index'' = Some (JStr []) \<or>
           map_of kvs ''_id'' = Some (JStr [])"
  shows "restore_single_item h p (JObj kvs) tr = (Inr False, tr) \<and>
         (\<forall>kvs'. missing_field kvs' \<longrightarrow>
            restore_single_item h p (JObj kvs') tr = restore_single_item h p (JObj kvs) tr)"
proof -
  have "restore_single_item h p (JObj kvs) tr = (Inr False, tr)"
    using assms by (auto simp: restore_single_item_def py_get_def split: option.splits)
  then show ?thesis by (simp add: single_missing)
qed

theorem restore_falsy_field_treated_as_missing_witness:
  "map_of doc_empty_source ''_source'' = Some (JObj []) \<and>
   missing_field doc_without_id \<and>
   restore_single_item created_server 9202 (JObj doc_empty_source) [] = (Inr False, []) \<and>
   restore_single_item created_server 9202 (JObj doc_without_id) [] =
     restore_single_item created_server 9202 (JObj doc_empty_source) []"
proof -
  have h: "map_of doc_empty_source ''_source'' = Some (JObj [])"
    by (simp add: doc_empty_source_def)
  have m: "missing_field doc_without_id"
    by (simp add: missing_field_def doc_without_id_def)
  from restore_falsy_field_treated_as_missing [of doc_empty_source created_server 9202 "[]"] h m
  show ?thesis by blast
qed

text \<open>
  C2. The file holds a hits list of two entries, \<^verbatim>\<open>null\<close> and a valid document, and the
  document store accepts every PUT. \<^verbatim>\<open>restore_from_file\<close> returns False with an empty
  trace: the valid document was never attempted. On its own the same document is restored.
\<close>

theorem restore_from_file_aborts_at_non_object_entry:
  "restore_from_file created_server 9202 (\<lambda>path. Parsed (envelope [JNull, doc ''a'']))
     ''json_files/alerts.json'' [] = (False, []) \<and>
   restore_from_file created_server 9202 (\<lambda>path. Parsed (envelope [doc ''a'']))
     ''json_files/alerts.json'' [] = (True, [put_doc 9202 ''a''])"
  by (simp add: restore_from_file_def envelope_def single_doc_created)
     (simp add: restore_single_item_def py_get_def)

section \<open>Closing the tunnel\<close>

lemma http_calls_append: "http_calls (xs @ ys) = http_calls xs @ http_calls ys"
  by (induction xs rule: http_calls.induct) auto

lemma collector_cleanup_trace:
  "\<exists>rest. snd (collector_cleanup_tunnel e (c, tr)) = tr @ rest \<and> http_calls rest = []"
  by (simp add: collector_cleanup_tunnel_def Let_def
           split: option.splits thread_state.splits prod.splits)



lemma restorer_cleanup_trace:
  "\<exists>rest. snd (restorer_cleanup_tunnel e (r, tr)) = tr @ rest \<and> http_calls rest = []"
  by (simp add: restorer_cleanup_tunnel_def Let_def
           split: option.splits proc_state.splits)







section \<open>Setting up the tunnel\<close>

lemma collector_create_connected:
  assumes "ssh_connect e = SshConnected"
  shows "collector_create_ssh_tunnel e (c, tr) =
     (case http e (tr @ [SshConnect, StartWorker, Sleep 3]) (probe (local_port c)) of
        Response resp \<Rightarrow>
          (True, started e c, tr @ [SshConnect, StartWorker, Sleep 3, Http (probe (local_port c))])
      | Raises x \<Rightarrow>
          (False, collector_cleanup_tunnel e
             (started e c,
              tr @ [SshConnect, StartWorker, Sleep 3, Http (probe (local_port c))] @
                (if x = ConnectionError then [ConnectEx (local_port c)] else []))))"
proof (cases "http e (tr @ [SshConnect, StartWorker, Sleep 3]) (probe (local_port c))")
  case (Response resp)
  with assms show ?thesis
    by (cases "bind_ok e") (simp_all add: collector_create_ssh_tunnel_def Let_def started_def)
next
  case (Raises x)
  with assms show ?thesis
    by (cases "bind_ok e"; cases x)
       (simp_all add: collector_create_ssh_tunnel_def Let_def started_def)
qed

lemma collector_create_trace:
  "\<exists>rest. snd (snd (collector_create_ssh_tunnel e (c, tr))) = tr @ rest \<and>
          set (http_calls rest) \<subseteq> {probe (local_port c)}"
proof (cases "ssh_connect e")
  case (SshRaises x)
  then show ?thesis by (simp add: collector_create_ssh_tunnel_def)
next
  case SshConnected
  show ?thesis
  proof (cases "http e (tr @ [SshConnect, StartWorker, Sleep 3]) (probe (local_port c))")
    case (Response r)
    with SshConnected show ?thesis
      by (simp add: collector_create_connected)
  next
    case (Raises x)
    define tr4 where "tr4 = tr @ [SshConnect, StartWorker, Sleep 3, Http (probe (local_port c))] @
                (if x = ConnectionError then [ConnectEx (local_port c)] else [])"
    obtain rest where rest: "snd (collector_cleanup_tunnel e (started e c, tr4)) = tr4 @ rest"
      and nohttp: "http_calls rest = []"
      using collector_cleanup_trace by blast
    have "snd (snd (collector_create_ssh_tunnel e (c, tr))) =
          tr @ ([SshConnect, StartWorker, Sleep 3, Http (probe (local_port c))] @
                (if x = ConnectionError then [ConnectEx (local_port c)] else []) @ rest)"
      using Raises rest by (simp add: collector_create_connected [OF SshConnected] tr4_def)
    moreover have "set (http_calls ([SshConnect, StartWorker, Sleep 3, Http (probe (local_port c))] @
                (if x = ConnectionError then [ConnectEx (local_port c)] else []) @ rest))
                \<subseteq> {probe (local_port c)}"
      using nohttp by (simp add: http_calls_append)
    ultimately show ?thesis by blast
  qed
qed

lemma restorer_create_trace:
  "\<exists>rest. snd (snd (restorer_create_ssh_tunnel e (r, tr))) = tr @ rest \<and>
          set (http_calls rest) \<subseteq> {probe (local_port r)}"
proof (cases "popen_ok e \<and> \<not> exited e (tr @ [Popen, Sleep 3])")
  case False
  then show ?thesis by (auto simp: restorer_create_ssh_tunnel_def Let_def)
next
  case True
  define r1 where "r1 = r\<lparr>tunnel_process := Some Running\<rparr>"
  define tr2 where "tr2 = tr @ [Popen, Sleep 3, Http (probe (local_port r))]"
  show ?thesis
  proof (cases "http e (tr @ [Popen, Sleep 3]) (probe (local_port r))")
    case (Response resp)
    with True show ?thesis by (simp add: restorer_create_ssh_tunnel_def Let_def)
  next
    case (Raises x)
    obtain rest where rest: "snd (restorer_cleanup_tunnel e (r1, tr2)) = tr2 @ rest"
      and nohttp: "http_calls rest = []"
      using restorer_cleanup_trace by blast
    have "snd (snd (restorer_create_ssh_tunnel e (r, tr))) =
          tr @ ([Popen, Sleep 3, Http (probe (local_port r))] @ (if x = OtherException then [] else rest))"
      using True Raises rest
      by (cases x) (simp_all add: restorer_create_ssh_tunnel_def Let_def tr2_def r1_def)
    moreover have "set (http_calls ([Popen, Sleep 3, Http (probe (local_port r))] @
                     (if x = OtherException then [] else rest))) \<subseteq> {probe (local_port r)}"
      using nohttp by (simp add: http_calls_append)
    ultimately show ?thesis by blast
  qed
qed

lemma collect_all_tunnel_failure:
  assumes "\<not> fst (collector_create_ssh_tunnel e s)"
  shows "collect_all e s = ([(''reports'', False), (''alerts'', False)],
                            snd (collector_create_ssh_tunnel e s))"
  using assms by (cases "collector_create_ssh_tunnel e s") (simp add: collect_all_def)

lemma restore_all_tunnel_failure:
  assumes "\<not> fst (restorer_create_ssh_tunnel e s)"
  shows "restore_all e s af rf = ([(''reports'', False), (''alerts'', False)],
                                  snd (restorer_create_ssh_tunnel e s))"
  using assms by (cases "restorer_create_ssh_tunnel e s") (simp add: restore_all_def)

lemma collect_main_tunnel_failure:
  assumes "\<not> fst (collector_create_ssh_tunnel e (c, []))"
  shows "snd (snd (collect_main e (Some c))) = Some (snd (collector_create_ssh_tunnel e (c, [])))"
  by (simp add: collect_main_def collect_all_tunnel_failure [OF assms])

lemma with_tunnel_failure_state:
  "\<not> fst (restorer_create_ssh_tunnel e (r, [])) \<Longrightarrow>
   snd (snd (with_tunnel e r key operation)) = Some (snd (restorer_create_ssh_tunnel e (r, [])))"
  by (cases "restorer_create_ssh_tunnel e (r, [])") (simp add: with_tunnel_def)

lemma restore_main_tunnel_failure_state:
  assumes "uses_tunnel a" and "\<not> fst (restorer_create_ssh_tunnel e (r, []))"
  shows "snd (snd (restore_main e (Some r) a)) = Some (snd (restorer_create_ssh_tunnel e (r, [])))"
  using assms(1) with_tunnel_failure_state [OF assms(2)] restore_all_tunnel_failure [OF assms(2)]
  by (simp add: restore_main_def uses_tunnel_def Let_def case_prod_beta)

text \<open>
  C7. When the tunnel cannot be set up, \<^verbatim>\<open>collect_all\<close> and \<^verbatim>\<open>restore_all\<close> report both
  \<^verbatim>\<open>reports\<close> and \<^verbatim>\<open>alerts\<close> as failed and do nothing after the failed setup: the only
  HTTP call the run can have made is the readiness test of the setup itself. The same holds
  for the whole run of either script: it ends in the state the failed setup left.
\<close>

theorem tunnel_failure_fails_all_without_http:
  assumes "\<not> fst (collector_create_ssh_tunnel ce (c, ctr))"
      and "\<not> fst (restorer_create_ssh_tunnel re (r, rtr))"
  shows "fst (collect_all ce (c, ctr)) = [(''reports'', False), (''alerts'', False)] \<and>
         snd (collect_all ce (c, ctr)) = snd (collector_create_ssh_tunnel ce (c, ctr)) \<and>
         (\<exists>rest. snd (snd (collect_all ce (c, ctr))) = ctr @ rest \<and>
                 set (http_calls rest) \<subseteq> {probe (local_port c)}) \<and>
         fst (restore_all re (r, rtr) af rf) = [(''reports'', False), (''alerts'', False)] \<and>
         snd (restore_all re (r, rtr) af rf) = snd (restorer_create_ssh_tunnel re (r, rtr)) \<and>
         (\<exists>rest. snd (snd (restore_all re (r, rtr) af rf)) = rtr @ rest \<and>
                 set (http_calls rest) \<subseteq> {probe (local_port r)}) \<and>
         (\<not> fst (collector_create_ssh_tunnel ce (c, [])) \<longrightarrow>
            snd (snd (collect_main ce (Some c))) =
              Some (snd (collector_create_ssh_tunnel ce (c, [])))) \<and>
         (uses_tunnel a \<and> \<not> fst (restorer_create_ssh_tunnel re (r, [])) \<longrightarrow>
            snd (snd (restore_main re (Some r) a)) =
              Some (snd (restorer_create_ssh_tunnel re (r, []))))"
  using collect_all_tunnel_failure [OF assms(1)] restore_all_tunnel_failure [OF assms(2), of af rf]
        collector_create_trace [of ce c ctr] restorer_create_trace [of re r rtr]
        collect_main_tunnel_failure [of ce c] restore_main_tunnel_failure_state [of a re r]
  by simp

lemma collector_refused:
  "collector_create_ssh_tunnel (collect_surroundings refusing SshConnected) (new_collector, []) =
     (False, new_collector,
      [SshConnect, StartWorker, Sleep 3, Http (probe 9201), ConnectEx 9201, CloseListener,
       JoinWorker, CloseSsh])"
  by (simp add: collector_create_ssh_tunnel_def collector_cleanup_tunnel_def
        collect_surroundings_def refusing_def new_collector_def Let_def)

lemma restorer_refused:
  "restorer_create_ssh_tunnel (restore_surroundings refusing True fs) (new_restorer, []) =
     (False, new_restorer, [Popen, Sleep 3, Http (probe 9202), Terminate, WaitProc])"
  by (simp add: restorer_create_ssh_tunnel_def restorer_cleanup_tunnel_def
        restore_surroundings_def refusing_def new_restorer_def Let_def)

theorem tunnel_failure_fails_all_without_http_witness:
  "\<not> fst (collector_create_ssh_tunnel (collect_surroundings refusing SshConnected) (new_collector, [])) \<and>
   \<not> fst (restorer_create_ssh_tunnel (restore_surroundings refusing True (\<lambda>path. NotFound))
            (new_restorer, [])) \<and>
   collect_all (collect_surroundings refusing SshConnected) (new_collector, []) =
     ([(''reports'', False), (''alerts'', False)],
      new_collector,
      [SshConnect, StartWorker, Sleep 3, Http (probe 9201), ConnectEx 9201, CloseListener,
       JoinWorker, CloseSsh]) \<and>
   restore_all (restore_surroundings refusing True (\<lambda>path. NotFound)) (new_restorer, []) None None =
     ([(''reports'', False), (''alerts'', False)],
      new_restorer, [Popen, Sleep 3, Http (probe 9202), Terminate, WaitProc]) \<and>
   snd (snd (collect_main (collect_surroundings refusing SshConnected) (Some new_collector))) =
     Some (new_collector,
           [SshConnect, StartWorker, Sleep 3, Http (probe 9201), ConnectEx 9201, CloseListener,
            JoinWorker, CloseSsh]) \<and>
   uses_tunnel (no_args\<lparr>alerts := Some ''alerts.json''\<rparr>) \<and>
   snd (snd (restore_main (restore_surroundings refusing True (\<lambda>path. NotFound)) (Some new_restorer)
               (no_args\<lparr>alerts := Some ''alerts.json''\<rparr>))) =
     Some (new_restorer, [Popen, Sleep 3, Http (probe 9202), Terminate, WaitProc])"
proof -
  have a: "\<not> fst (collector_create_ssh_tunnel (collect_surroundings refusing SshConnected)
                    (new_collector, []))"
    by (simp add: collector_refused)
  have b: "\<not> fst (restorer_create_ssh_tunnel (restore_surroundings refusing True (\<lambda>path. NotFound))
                    (new_restorer, []))"
    by (simp add: restorer_refused)
  have u: "uses_tunnel (no_args\<lparr>alerts := Some ''alerts.json''\<rparr>)"
    by (simp add: uses_tunnel_def no_args_def arg_def)
  note t = tunnel_failure_fails_all_without_http [OF a b, of None None
             "no_args\<lparr>alerts := Some ''alerts.json''\<rparr>"]
  from t a have m1: "snd (snd (collect_main (collect_surroundings refusing SshConnected)
                                 (Some new_collector))) =
     Some (snd (collector_create_ssh_tunnel (collect_surroundings refusing SshConnected)
                  (new_collector, [])))"
    by blast
  from t u b have m2: "snd (snd (restore_main (restore_surroundings refusing True (\<lambda>path. NotFound))
                         (Some new_restorer) (no_args\<lparr>alerts := Some ''alerts.json''\<rparr>))) =
     Some (snd (restorer_create_ssh_tunnel (restore_surroundings refusing True (\<lambda>path. NotFound))
                  (new_restorer, [])))"
    by blast
  from t
  have "collect_all (collect_surroundings refusing SshConnected) (new_collector, []) =
          ([(''reports'', False), (''alerts'', False)],
           snd (collector_create_ssh_tunnel (collect_surroundings refusing SshConnected)
                  (new_collector, [])))"
    and "restore_all (restore_surroundings refusing True (\<lambda>path. NotFound)) (new_restorer, []) None None =
          ([(''reports'', False), (''alerts'', False)],
           snd (restorer_create_ssh_tunnel (restore_surroundings refusing True (\<lambda>path. NotFound))
                  (new_restorer, [])))"
    by (simp_all add: prod_eq_iff)
  with a b u m1 m2 show ?thesis by (simp add: collector_refused restorer_refused)
qed

lemma restorer_create_started:
  assumes "popen_ok e" and "\<not> exited e (tr @ [Popen, Sleep 3])"
  shows "restorer_create_ssh_tunnel e (r, tr) =
     (case http e (tr @ [Popen, Sleep 3]) (probe (local_port r)) of
        Response resp \<Rightarrow>
          (True, r\<lparr>tunnel_process := Some Running\<rparr>, tr @ [Popen, Sleep 3, Http (probe (local_port r))])
      | Raises x \<Rightarrow>
          (False,
           if x = OtherException
           then (r\<lparr>tunnel_process := Some Running\<rparr>, tr @ [Popen, Sleep 3, Http (probe (local_port r))])
           else restorer_cleanup_tunnel e
                  (r\<lparr>tunnel_process := Some Running\<rparr>,
                   tr @ [Popen, Sleep 3, Http (probe (local_port r))])))"
proof (cases "http e (tr @ [Popen, Sleep 3]) (probe (local_port r))")
  case (Response resp)
  with assms show ?thesis by (simp add: restorer_create_ssh_tunnel_def Let_def)
next
  case (Raises x)
  with assms show ?thesis
    by (cases x) (simp_all add: restorer_create_ssh_tunnel_def Let_def)
qed

text \<open>
  C5. With the SSH side up (the collector's connection made, the restorer's \<^verbatim>\<open>ssh\<close> process
  still running after the three-second wait), setup makes exactly one HTTP request after
  the wait: a GET of \<^verbatim>\<open>http://localhost:<local_port>\<close> with no body. Any response, whatever
  its status, makes setup return True with the tunnel left up and nothing else done. A
  refused connection or a timeout makes it return False after the teardown, which is given
  here step by step. Collector: the listener socket is closed if one is held, the worker is
  joined if it is alive, the SSH client is closed, the flag is cleared. Restorer: the
  process is terminated and waited for, and killed if the wait times out, unless it is
  found to have exited already.
\<close>

theorem readiness_probe_decides_setup:
  assumes "ssh_connect ce = SshConnected"
      and "popen_ok re" and "\<not> exited re (rtr @ [Popen, Sleep 3])"
  shows "(\<forall>resp. http ce (ctr @ [SshConnect, StartWorker, Sleep 3]) (HttpGet (local_port c) [] None) =
                   Response resp \<longrightarrow>
            collector_create_ssh_tunnel ce (c, ctr) =
              (True, started ce c,
               ctr @ [SshConnect, StartWorker, Sleep 3, Http (HttpGet (local_port c) [] None)]) \<and>
            tunnel_running (started ce c) \<and> ssh_client (started ce c) = Some Connected) \<and>
         (\<forall>x. (x = ConnectionError \<or> x = Timeout) \<and>
              http ce (ctr @ [SshConnect, StartWorker, Sleep 3]) (HttpGet (local_port c) [] None) =
                Raises x \<longrightarrow>
            collector_create_ssh_tunnel ce (c, ctr) =
              (let tr4 = ctr @ [SshConnect, StartWorker, Sleep 3, Http (HttpGet (local_port c) [] None)] @
                           (if x = ConnectionError then [ConnectEx (local_port c)] else []);
                   tr5 = tr4 @ (if bind_ok ce \<or> tunnel_server c \<noteq> None then [CloseListener] else []);
                   joined = (bind_ok ce \<and> \<not> worker_finished ce tr5)
               in (False,
                   c\<lparr>ssh_client := None,
                     tunnel_thread := (if joined then None else Some Finished),
                     tunnel_server := None, tunnel_running := False\<rparr>,
                   tr5 @ (if joined then [JoinWorker] else []) @ [CloseSsh]))) \<and>
         (\<forall>resp. http re (rtr @ [Popen, Sleep 3]) (HttpGet (local_port r) [] None) = Response resp \<longrightarrow>
            restorer_create_ssh_tunnel re (r, rtr) =
              (True, r\<lparr>tunnel_process := Some Running\<rparr>,
               rtr @ [Popen, Sleep 3, Http (HttpGet (local_port r) [] None)])) \<and>
         (\<forall>x. (x = ConnectionError \<or> x = Timeout) \<and>
              http re (rtr @ [Popen, Sleep 3]) (HttpGet (local_port r) [] None) = Raises x \<longrightarrow>
            restorer_create_ssh_tunnel re (r, rtr) =
              (let tr2 = rtr @ [Popen, Sleep 3, Http (HttpGet (local_port r) [] None)]
               in if exited re tr2 then (False, r\<lparr>tunnel_process := Some Exited\<rparr>, tr2)
                  else (False, r\<lparr>tunnel_process := None\<rparr>,
                        tr2 @ [Terminate, WaitProc] @
                          (if wait_times_out re (tr2 @ [Terminate, WaitProc]) then [Kill] else []))))"
proof (intro conjI allI impI)
  fix resp
  assume "http ce (ctr @ [SshConnect, StartWorker, Sleep 3]) (HttpGet (local_port c) [] None) =
            Response resp"
  then show "collector_create_ssh_tunnel ce (c, ctr) =
               (True, started ce c,
                ctr @ [SshConnect, StartWorker, Sleep 3, Http (HttpGet (local_port c) [] None)])"
    by (simp add: collector_create_connected [OF assms(1)] probe_def)
next
  show "tunnel_running (started ce c)" by (simp add: started_def)
next
  show "ssh_client (started ce c) = Some Connected" by (simp add: started_def)
next
  fix x
  assume a: "(x = ConnectionError \<or> x = Timeout) \<and>
             http ce (ctr @ [SshConnect, StartWorker, Sleep 3]) (HttpGet (local_port c) [] None) =
               Raises x"
  define tr4 where "tr4 = ctr @ [SshConnect, StartWorker, Sleep 3, Http (HttpGet (local_port c) [] None)] @
                            (if x = ConnectionError then [ConnectEx (local_port c)] else [])"
  have create: "collector_create_ssh_tunnel ce (c, ctr) =
                  (False, collector_cleanup_tunnel ce (started ce c, tr4))"
    using a by (simp add: collector_create_connected [OF assms(1)] probe_def tr4_def)
  have cleanup: "collector_cleanup_tunnel ce (started ce c, tr4) =
          (let tr5 = tr4 @ (if bind_ok ce \<or> tunnel_server c \<noteq> None then [CloseListener] else []);
               joined = (bind_ok ce \<and> \<not> worker_finished ce tr5)
           in (c\<lparr>ssh_client := None,
                 tunnel_thread := (if joined then None else Some Finished),
                 tunnel_server := None, tunnel_running := False\<rparr>,
               tr5 @ (if joined then [JoinWorker] else []) @ [CloseSsh]))"
    by (cases "bind_ok ce"; cases "tunnel_server c";
        cases "worker_finished ce (tr4 @ [CloseListener])")
       (simp_all add: collector_cleanup_tunnel_def started_def Let_def)
  show "collector_create_ssh_tunnel ce (c, ctr) =
              (let tr4 = ctr @ [SshConnect, StartWorker, Sleep 3, Http (HttpGet (local_port c) [] None)] @
                           (if x = ConnectionError then [ConnectEx (local_port c)] else []);
                   tr5 = tr4 @ (if bind_ok ce \<or> tunnel_server c \<noteq> None then [CloseListener] else []);
                   joined = (bind_ok ce \<and> \<not> worker_finished ce tr5)
               in (False,
                   c\<lparr>ssh_client := None,
                     tunnel_thread := (if joined then None else Some Finished),
                     tunnel_server := None, tunnel_running := False\<rparr>,
                   tr5 @ (if joined then [JoinWorker] else []) @ [CloseSsh]))"
    unfolding create cleanup by (simp add: Let_def tr4_def)
next
  fix resp
  assume "http re (rtr @ [Popen, Sleep 3]) (HttpGet (local_port r) [] None) = Response resp"
  then show "restorer_create_ssh_tunnel re (r, rtr) =
              (True, r\<lparr>tunnel_process := Some Running\<rparr>,
               rtr @ [Popen, Sleep 3, Http (HttpGet (local_port r) [] None)])"
    by (simp add: restorer_create_started [OF assms(2,3)] probe_def)
next
  fix x
  assume a: "(x = ConnectionError \<or> x = Timeout) \<and>
             http re (rtr @ [Popen, Sleep 3]) (HttpGet (local_port r) [] None) = Raises x"
  have create: "restorer_create_ssh_tunnel re (r, rtr) =
          (False, restorer_cleanup_tunnel re
                    (r\<lparr>tunnel_process := Some Running\<rparr>,
                     rtr @ [Popen, Sleep 3, Http (HttpGet (local_port r) [] None)]))"
    using a by (auto simp: restorer_create_started [OF assms(2,3)] probe_def)
  show "restorer_create_ssh_tunnel re (r, rtr) =
              (let tr2 = rtr @ [Popen, Sleep 3, Http (HttpGet (local_port r) [] None)]
               in if exited re tr2 then (False, r\<lparr>tunnel_process := Some Exited\<rparr>, tr2)
                  else (False, r\<lparr>tunnel_process := None\<rparr>,
                        tr2 @ [Terminate, WaitProc] @
                          (if wait_times_out re (tr2 @ [Terminate, WaitProc]) then [Kill] else [])))"
    unfolding create by (simp add: restorer_cleanup_tunnel_def Let_def)
qed

theorem readiness_probe_decides_setup_witness:
  "ssh_connect (collect_surroundings (json_server 503 JNull) SshConnected) = SshConnected \<and>
   ssh_connect (collect_surroundings refusing SshConnected) = SshConnected \<and>
   ssh_connect (collect_surroundings timing_out SshConnected) = SshConnected \<and>
   popen_ok (restore_surroundings timing_out True (\<lambda>path. NotFound)) \<and>
   http (collect_surroundings (json_server 503 JNull) SshConnected)
     [SshConnect, StartWorker, Sleep 3] (HttpGet 9201 [] None) =
     Response \<lparr>status = 503, content_type = ''application/json; charset=UTF-8'',
               body_json = Some JNull, body_text = []\<rparr> \<and>
   collector_create_ssh_tunnel (collect_surroundings (json_server 503 JNull) SshConnected)
     (new_collector, []) =
     (True, open_collector, [SshConnect, StartWorker, Sleep 3, Http (HttpGet 9201 [] None)]) \<and>
   http (collect_surroundings refusing SshConnected) [SshConnect, StartWorker, Sleep 3]
     (HttpGet 9201 [] None) = Raises ConnectionError \<and>
   collector_create_ssh_tunnel (collect_surroundings refusing SshConnected) (new_collector, []) =
     (False, new_collector,
      [SshConnect, StartWorker, Sleep 3, Http (HttpGet 9201 [] None), ConnectEx 9201,
       CloseListener, JoinWorker, CloseSsh]) \<and>
   http (collect_surroundings timing_out SshConnected) [SshConnect, StartWorker, Sleep 3]
     (HttpGet 9201 [] None) = Raises Timeout \<and>
   collector_create_ssh_tunnel (collect_surroundings timing_out SshConnected) (new_collector, []) =
     (False, new_collector,
      [SshConnect, StartWorker, Sleep 3, Http (HttpGet 9201 [] None), CloseListener, JoinWorker,
       CloseSsh]) \<and>
   http (restore_surroundings (json_server 404 JNull) True (\<lambda>path. NotFound)) [Popen, Sleep 3]
     (HttpGet 9202 [] None) =
     Response \<lparr>status = 404, content_type = ''application/json; charset=UTF-8'',
               body_json = Some JNull, body_text = []\<rparr> \<and>
   restorer_create_ssh_tunnel (restore_surroundings (json_server 404 JNull) True (\<lambda>path. NotFound))
     (new_restorer, []) =
     (True, open_restorer, [Popen, Sleep 3, Http (HttpGet 9202 [] None)]) \<and>
   http (restore_surroundings timing_out True (\<lambda>path. NotFound)) [Popen, Sleep 3]
     (HttpGet 9202 [] None) = Raises Timeout \<and>
   restorer_create_ssh_tunnel (restore_surroundings timing_out True (\<lambda>path. NotFound))
     (new_restorer, []) =
     (False, new_restorer, [Popen, Sleep 3, Http (HttpGet 9202 [] None), Terminate, WaitProc]) \<and>
   restorer_create_ssh_tunnel (restore_surroundings refusing True (\<lambda>path. NotFound))
     (new_restorer, []) =
     (False, new_restorer, [Popen, Sleep 3, Http (HttpGet 9202 [] None), Terminate, WaitProc])"
proof -
  let ?c503 = "collect_surroundings (json_server 503 JNull) SshConnected"
  let ?cref = "collect_surroundings refusing SshConnected"
  let ?cto = "collect_surroundings timing_out SshConnected"
  let ?r404 = "restore_surroundings (json_server 404 JNull) True (\<lambda>path. NotFound)"
  let ?rto = "restore_surroundings timing_out True (\<lambda>path. NotFound)"
  let ?rref = "restore_surroundings refusing True (\<lambda>path. NotFound)"
  have ssh: "ssh_connect ?c503 = SshConnected" "ssh_connect ?cref = SshConnected"
            "ssh_connect ?cto = SshConnected"
    by (simp_all add: collect_surroundings_def)
  have po: "popen_ok ?r404" "popen_ok ?rto" "popen_ok ?rref"
    by (simp_all add: restore_surroundings_def)
  have ne: "\<not> exited ?r404 ([] @ [Popen, Sleep 3])" "\<not> exited ?rto ([] @ [Popen, Sleep 3])"
           "\<not> exited ?rref ([] @ [Popen, Sleep 3])"
    by (simp_all add: restore_surroundings_def)
  have h1: "http ?c503 [SshConnect, StartWorker, Sleep 3] (HttpGet 9201 [] None) =
              Response \<lparr>status = 503, content_type = ''application/json; charset=UTF-8'',
                        body_json = Some JNull, body_text = []\<rparr>"
    by (simp add: collect_surroundings_def json_server_def)
  have h2: "http ?cref [SshConnect, StartWorker, Sleep 3] (HttpGet 9201 [] None) =
              Raises ConnectionError"
    by (simp add: collect_surroundings_def refusing_def)
  have h3: "http ?cto [SshConnect, StartWorker, Sleep 3] (HttpGet 9201 [] None) = Raises Timeout"
    by (simp add: collect_surroundings_def timing_out_def)
  have h4: "http ?r404 [Popen, Sleep 3] (HttpGet 9202 [] None) =
              Response \<lparr>status = 404, content_type = ''application/json; charset=UTF-8'',
                        body_json = Some JNull, body_text = []\<rparr>"
    by (simp add: restore_surroundings_def json_server_def)
  have h5: "http ?rto [Popen, Sleep 3] (HttpGet 9202 [] None) = Raises Timeout"
    by (simp add: restore_surroundings_def timing_out_def)
  have h6: "http ?rref [Popen, Sleep 3] (HttpGet 9202 [] None) = Raises ConnectionError"
    by (simp add: restore_surroundings_def refusing_def)
  have pc: "local_port new_collector = 9201" and pr: "local_port new_restorer = 9202"
    by (simp_all add: new_collector_def new_restorer_def)
  note t1 = readiness_probe_decides_setup [OF ssh(1) po(1) ne(1), of "[]" new_collector new_restorer]
  note t2 = readiness_probe_decides_setup [OF ssh(2) po(2) ne(2), of "[]" new_collector new_restorer]
  note t3 = readiness_probe_decides_setup [OF ssh(3) po(3) ne(3), of "[]" new_collector new_restorer]
  from t1 h1 h4 have a: "collector_create_ssh_tunnel ?c503 (new_collector, []) =
        (True, started ?c503 new_collector,
         [] @ [SshConnect, StartWorker, Sleep 3, Http (HttpGet (local_port new_collector) [] None)])"
    and d: "restorer_create_ssh_tunnel ?r404 (new_restorer, []) =
        (True, new_restorer\<lparr>tunnel_process := Some Running\<rparr>,
         [] @ [Popen, Sleep 3, Http (HttpGet (local_port new_restorer) [] None)])"
    by (simp_all add: pc pr)
  from t2 h2 h5 have b: "collector_create_ssh_tunnel ?cref (new_collector, []) =
       (False, new_collector,
        [SshConnect, StartWorker, Sleep 3, Http (HttpGet 9201 [] None), ConnectEx 9201,
         CloseListener, JoinWorker, CloseSsh])"
    and e: "restorer_create_ssh_tunnel ?rto (new_restorer, []) =
       (False, new_restorer, [Popen, Sleep 3, Http (HttpGet 9202 [] None), Terminate, WaitProc])"
    by (simp_all add: pc pr Let_def collect_surroundings_def restore_surroundings_def
          new_collector_def new_restorer_def)
  from t3 h3 h6 have c: "collector_create_ssh_tunnel ?cto (new_collector, []) =
       (False, new_collector,
        [SshConnect, StartWorker, Sleep 3, Http (HttpGet 9201 [] None), CloseListener, JoinWorker,
         CloseSsh])"
    and f: "restorer_create_ssh_tunnel ?rref (new_restorer, []) =
       (False, new_restorer, [Popen, Sleep 3, Http (HttpGet 9202 [] None), Terminate, WaitProc])"
    by (simp_all add: pc pr Let_def collect_surroundings_def restore_surroundings_def
          new_collector_def new_restorer_def)
  from a have a': "collector_create_ssh_tunnel ?c503 (new_collector, []) =
       (True, open_collector, [SshConnect, StartWorker, Sleep 3, Http (HttpGet 9201 [] None)])"
    by (simp add: started_def collect_surroundings_def open_collector_def pc)
  from d have d': "restorer_create_ssh_tunnel ?r404 (new_restorer, []) =
       (True, open_restorer, [Popen, Sleep 3, Http (HttpGet 9202 [] None)])"
    by (simp add: open_restorer_def pr)
  from ssh po(2) h1 h2 h3 h4 h5 a' b c d' e f show ?thesis by blast
qed

section \<open>Exit status\<close>

lemma exit_code_cases: "exit_code rs = 0 \<longleftrightarrow> list_all snd rs"
  by (simp add: exit_code_def)

lemma exit_code_range: "exit_code rs = 0 \<or> exit_code rs = 1"
  by (simp add: exit_code_def)

lemma exit_agrees_results [simp]: "exit_agrees e (summary_and_exit e rs, Some rs, s)"
  by (simp add: exit_agrees_def summary_and_exit_def exit_code_def)

lemma exit_agrees_abort [simp]: "exit_agrees e (1, None, s)"
  by (simp add: exit_agrees_def)

text \<open>
  Either script exits with 0 or 1, and with 0 exactly when a result mapping was made, every
  entry of it is True and the summary could be printed.
\<close>

lemma collect_main_exit: "exit_agrees e (collect_main e init)"
  by (cases init) (simp_all add: collect_main_def Let_def case_prod_beta)

lemma with_tunnel_exit [simp]: "exit_agrees e (with_tunnel e r key operation)"
proof (cases "restorer_create_ssh_tunnel e (r, [])")
  case (fields ok r1 tr1)
  then show ?thesis
    by (cases ok) (simp_all add: with_tunnel_def Let_def case_prod_beta)
qed

lemma restore_main_exit: "exit_agrees e (restore_main e init a)"
  by (cases init) (simp_all add: restore_main_def Let_def case_prod_beta)

text \<open>The status is 1 when the tunnel cannot be set up.\<close>

lemma collect_main_tunnel_failure_exit:
  assumes "\<not> fst (collector_create_ssh_tunnel e (c, []))"
  shows "fst (collect_main e (Some c)) = 1"
  by (simp add: collect_main_def collect_all_tunnel_failure [OF assms] summary_and_exit_def
        exit_code_def)

lemma with_tunnel_failure:
  "\<not> fst (restorer_create_ssh_tunnel e (r, [])) \<Longrightarrow> fst (with_tunnel e r key operation) = 1"
  by (cases "restorer_create_ssh_tunnel e (r, [])") (simp add: with_tunnel_def)

lemma restore_main_tunnel_failure:
  assumes "uses_tunnel a" and "\<not> fst (restorer_create_ssh_tunnel e (r, []))"
  shows "fst (restore_main e (Some r) a) = 1"
  using assms(1) with_tunnel_failure [OF assms(2)] restore_all_tunnel_failure [OF assms(2)]
  by (simp add: restore_main_def uses_tunnel_def summary_and_exit_def exit_code_def Let_def
        case_prod_beta)

text \<open>
  The collector's status in terms of its sub-operations: 0 exactly when the tunnel was set
  up, both searches were collected and the summary could be printed.
\<close>

lemma collect_main_exit_zero:
  "fst (collect_main e (Some c)) = 0 \<longleftrightarrow>
     fst (collector_create_ssh_tunnel e (c, [])) \<and>
     (let (c1, tr1) = snd (collector_create_ssh_tunnel e (c, []));
          (reports, tr2) = collect_reports e c1 tr1;
          (alerts, tr3) = collect_alerts e c1 tr2
      in reports \<and> alerts \<and> summary_prints e [(''reports'', reports), (''alerts'', alerts)])"
proof (cases "collector_create_ssh_tunnel e (c, [])")
  case (fields ok c1 tr1)
  then show ?thesis
    by (cases ok)
       (auto simp: collect_main_def collect_all_def summary_and_exit_def exit_code_def Let_def
          case_prod_beta)
qed

lemma collector_answered:
  "collector_create_ssh_tunnel (collect_surroundings (json_server 200 j) SshConnected) (new_collector, []) =
     (True, open_collector, [SshConnect, StartWorker, Sleep 3, Http (HttpGet 9201 [] None)])"
  by (simp add: collector_create_ssh_tunnel_def collect_surroundings_def json_server_def
        new_collector_def open_collector_def probe_def Let_def)

lemma execute_request_answered:
  "encodable j \<Longrightarrow>
   execute_request (collect_surroundings (json_server 200 j) ssh) c endpoint query output_file tr =
     (True, tr @ [Http (HttpGet (local_port c) (endpoint @ ''?pretty'') (Some query)),
                  Wrote output_file (JsonDump j)])"
  by (simp add: execute_request_def write_file_def collect_surroundings_def json_server_def Let_def
        raise_for_status_def startswith_def)

lemma encodable_envelope_empty: "encodable (envelope [])"
  by (simp add: envelope_def)

lemma collect_all_answered:
  "collect_all (collect_surroundings (json_server 200 (envelope [])) SshConnected) (new_collector, []) =
     ([(''reports'', True), (''alerts'', True)],
      new_collector,
      [SshConnect, StartWorker, Sleep 3, Http (HttpGet 9201 [] None),
       Http (HttpGet 9201
               ''/vrm-scheduled-report-definition-vrm-ty-vrm-scheduled-report-definition/_search?pretty''
               (Some match_all_query)),
       Wrote ''json_files/reports_20240101_000000.json'' (JsonDump (envelope [])),
       Http (HttpGet 9201 ''/rt-alert-def-vrm-ty-rt-alert-def-vrm/_search?pretty''
               (Some match_all_query)),
       Wrote ''json_files/alerts_20240101_000000.json'' (JsonDump (envelope [])),
       CloseListener, JoinWorker, CloseSsh])"
proof -
  have fields: "output_dir open_collector = ''json_files''"
               "timestamp open_collector = ''20240101_000000''"
               "local_port open_collector = 9201"
    by (simp_all add: open_collector_def new_collector_def)
  have cleanup: "collector_cleanup_tunnel (collect_surroundings h SshConnected) (open_collector, tr) =
                   (new_collector, tr @ [CloseListener, JoinWorker, CloseSsh])" for h tr
    by (simp add: collector_cleanup_tunnel_def collect_surroundings_def open_collector_def
          new_collector_def Let_def)
  show ?thesis
    by (simp add: collect_all_def collector_answered collect_reports_def collect_alerts_def
          execute_request_answered [OF encodable_envelope_empty] fields cleanup path_join_def)
qed

lemma restore_single_created:
  "restore_from_file created_server 9202 (\<lambda>path. Parsed (envelope [doc ''a''])) path tr =
     (True, tr @ [put_doc 9202 ''a''])"
  by (simp add: restore_from_file_def envelope_def single_doc_created)

lemma restore_all_created:
  "restore_all (restore_surroundings created_server True (\<lambda>path. Parsed (envelope [doc ''a''])))
       (new_restorer, []) None None =
     ([(''alerts'', True), (''reports'', True)],
      new_restorer,
      [Popen, Sleep 3, Http (HttpGet 9202 [] None), put_doc 9202 ''a'', put_doc 9202 ''a'',
       Terminate, WaitProc])"
proof -
  let ?e = "restore_surroundings created_server True (\<lambda>path. Parsed (envelope [doc ''a'']))"
  have opened: "restorer_create_ssh_tunnel ?e (new_restorer, []) =
                 (True, open_restorer, [Popen, Sleep 3, Http (HttpGet 9202 [] None)])"
    by (simp add: restorer_create_ssh_tunnel_def restore_surroundings_def created_server_def
          new_restorer_def open_restorer_def probe_def Let_def)
  have parts: "http ?e = created_server" "files ?e = (\<lambda>path. Parsed (envelope [doc ''a'']))"
              "local_port open_restorer = 9202"
    by (simp_all add: restore_surroundings_def open_restorer_def new_restorer_def)
  have cleanup: "restorer_cleanup_tunnel ?e (open_restorer, tr) =
                   (new_restorer, tr @ [Terminate, WaitProc])" for tr
    by (simp add: restorer_cleanup_tunnel_def restore_surroundings_def open_restorer_def
          new_restorer_def Let_def)
  show ?thesis
    by (simp add: restore_all_def opened restore_alerts_def restore_reports_def parts
          restore_single_created cleanup)
qed

text \<open>Whether the summary can be printed bears on nothing before it.\<close>

lemma collector_cleanup_ignores_summary [simp]:
  "collector_cleanup_tunnel (e\<lparr>summary_prints := p\<rparr>) s = collector_cleanup_tunnel e s"
  by (cases s) (simp add: collector_cleanup_tunnel_def Let_def split: option.splits thread_state.splits)

lemma collector_create_ignores_summary [simp]:
  "collector_create_ssh_tunnel (e\<lparr>summary_prints := p\<rparr>) s = collector_create_ssh_tunnel e s"
  by (cases s) (simp add: collector_create_ssh_tunnel_def Let_def
        split: ssh_result.splits http_result.splits http_exc.splits)

lemma execute_request_ignores_summary [simp]:
  "execute_request (e\<lparr>summary_prints := p\<rparr>) c endpoint query output_file tr =
   execute_request e c endpoint query output_file tr"
  by (simp add: execute_request_def write_file_def Let_def split: http_result.splits option.splits)

lemma collect_all_ignores_summary:
  "collect_all (e\<lparr>summary_prints := p\<rparr>) s = collect_all e s"
  by (simp add: collect_all_def collect_reports_def collect_alerts_def
        split: prod.splits bool.splits)

lemma restorer_cleanup_ignores_summary [simp]:
  "restorer_cleanup_tunnel (e\<lparr>summary_prints := p\<rparr>) s = restorer_cleanup_tunnel e s"
  by (cases s) (simp add: restorer_cleanup_tunnel_def Let_def split: option.splits proc_state.splits)

lemma restorer_create_ignores_summary [simp]:
  "restorer_create_ssh_tunnel (e\<lparr>summary_prints := p\<rparr>) s = restorer_create_ssh_tunnel e s"
  by (cases s) (simp add: restorer_create_ssh_tunnel_def Let_def
        split: http_result.splits http_exc.splits)

lemma restore_all_ignores_summary:
  "restore_all (e\<lparr>summary_prints := p\<rparr>) s af rf = restore_all e s af rf"
  by (simp add: restore_all_def restore_alerts_def restore_reports_def
        split: prod.splits bool.splits)

text \<open>
  C8. Every sub-operation succeeds, and the standard output cannot encode the glyph
  U+2713 of the summary (an encoding such as Latin-1 or cp1252): the \<^verbatim>\<open>print\<close> raises inside
  the \<^verbatim>\<open>try\<close>, \<^verbatim>\<open>except Exception\<close> catches it, and the process exits with 1 although every
  entry of the result mapping is True. The collector has set up the tunnel, collected both
  searches into their files and closed the tunnel; the restorer has restored both files.
  The same runs on a standard output that takes the glyph exit with 0.
\<close>

theorem exit_status_one_though_all_succeeded:
  "collect_main ((collect_surroundings (json_server 200 (envelope [])) SshConnected)
                   \<lparr>summary_prints := (\<lambda>rs. False)\<rparr>) (Some new_collector) =
     (1, Some [(''reports'', True), (''alerts'', True)],
      Some (new_collector,
            [SshConnect, StartWorker, Sleep 3, Http (HttpGet 9201 [] None),
             Http (HttpGet 9201
                     ''/vrm-scheduled-report-definition-vrm-ty-vrm-scheduled-report-definition/_search?pretty''
                     (Some match_all_query)),
             Wrote ''json_files/reports_20240101_000000.json'' (JsonDump (envelope [])),
             Http (HttpGet 9201 ''/rt-alert-def-vrm-ty-rt-alert-def-vrm/_search?pretty''
                     (Some match_all_query)),
             Wrote ''json_files/alerts_20240101_000000.json'' (JsonDump (envelope [])),
             CloseListener, JoinWorker, CloseSsh])) \<and>
   fst (collect_main (collect_surroundings (json_server 200 (envelope [])) SshConnected)
          (Some new_collector)) = 0 \<and>
   restore_main ((restore_surroundings created_server True (\<lambda>path. Parsed (envelope [doc ''a''])))
                   \<lparr>summary_prints := (\<lambda>rs. False)\<rparr>) (Some new_restorer) no_args =
     (1, Some [(''alerts'', True), (''reports'', True)],
      Some (new_restorer,
            [Popen, Sleep 3, Http (HttpGet 9202 [] None),
             Http (HttpPut 9202 (JStr ''rt-alert-def-vrm'') (JStr ''a'') (JObj [(''name'', JStr ''a'')])),
             Http (HttpPut 9202 (JStr ''rt-alert-def-vrm'') (JStr ''a'') (JObj [(''name'', JStr ''a'')])),
             Terminate, WaitProc])) \<and>
   fst (restore_main (restore_surroundings created_server True (\<lambda>path. Parsed (envelope [doc ''a''])))
          (Some new_restorer) no_args) = 0"
proof -
  let ?ce = "collect_surroundings (json_server 200 (envelope [])) SshConnected"
  let ?re = "restore_surroundings created_server True (\<lambda>path. Parsed (envelope [doc ''a'']))"
  have args: "arg (file_arg no_args) = []" "arg (alerts_source no_args) = []"
             "arg (reports_source no_args) = []" "arg (alerts no_args) = []"
             "arg (reports no_args) = []"
    by (simp_all add: no_args_def arg_def)
  have c1: "collect_main (?ce\<lparr>summary_prints := (\<lambda>rs. False)\<rparr>) (Some new_collector) =
              (1, Some [(''reports'', True), (''alerts'', True)],
               Some (snd (collect_all ?ce (new_collector, []))))"
    by (simp add: collect_main_def collect_all_ignores_summary collect_all_answered
          summary_and_exit_def)
  have prints: "summary_prints ?ce = (\<lambda>rs. True)" "summary_prints ?re = (\<lambda>rs. True)"
    by (simp_all add: collect_surroundings_def restore_surroundings_def)
  have c0: "fst (collect_main ?ce (Some new_collector)) = 0"
    by (simp add: collect_main_def collect_all_answered summary_and_exit_def exit_code_def prints)
  have r1: "restore_main (?re\<lparr>summary_prints := (\<lambda>rs. False)\<rparr>) (Some new_restorer) no_args =
              (1, Some [(''alerts'', True), (''reports'', True)],
               Some (snd (restore_all ?re (new_restorer, []) None None)))"
    by (simp add: restore_main_def args restore_all_ignores_summary restore_all_created
          summary_and_exit_def)
  have r0: "fst (restore_main ?re (Some new_restorer) no_args) = 0"
    by (simp add: restore_main_def args restore_all_created summary_and_exit_def exit_code_def
          prints)
  show ?thesis
    unfolding c1 r1 using c0 r0 by (simp add: collect_all_answered restore_all_created put_doc_def)
qed

section \<open>Collecting a search response\<close>

text \<open>
  C4, as stated, fails: the document store answers the search with 200 and the JSON body
  \<^verbatim>\<open>{"acknowledged": true}\<close>, which has no \<^verbatim>\<open>hits\<close> key, and \<^verbatim>\<open>collect_reports\<close> returns True.
\<close>

theorem collect_reports_succeeds_without_hits:
  "\<not> has_hits acknowledged \<and>
   fst (collect_reports (collect_surroundings (json_server 200 acknowledged) SshConnected)
          new_collector []) = True"
proof -
  have "encodable acknowledged" by (simp add: acknowledged_def)
  then show ?thesis
    by (simp add: has_hits_def acknowledged_def collect_reports_def execute_request_answered)
qed

lemma execute_request_one_call:
  "http_calls (snd (execute_request e c endpoint query output_file tr)) =
     http_calls tr @ [HttpGet (local_port c) (endpoint @ ''?pretty'') (Some query)]"
  by (simp add: execute_request_def write_file_def Let_def http_calls_append
           split: http_result.splits option.splits)

lemma restore_from_file_without_hits:
  "\<not> has_hits j \<Longrightarrow> restore_from_file h p (\<lambda>path. Parsed j) path tr = (False, tr)"
  by (cases j) (simp_all add: restore_from_file_def has_hits_def)

lemma execute_request_succeeds_iff:
  "fst (execute_request e c endpoint query output_file tr) \<longleftrightarrow>
     (\<exists>r. http e tr (HttpGet (local_port c) (endpoint @ ''?pretty'') (Some query)) = Response r \<and>
          \<not> raise_for_status r \<and> writable e output_file \<and>
          (if startswith (content_type r) ''application/json''
           then \<exists>j. body_json r = Some j \<and> encodable j \<and>
                    write_completes e output_file (JsonDump j)
           else write_completes e output_file (Text (body_text r))))"
  by (cases "http e tr (HttpGet (local_port c) (endpoint @ ''?pretty'') (Some query))")
     (auto simp: execute_request_def write_file_def Let_def split: option.splits)

text \<open>
  C4, amended. The request of a search is made exactly once in every case, so nothing is
  retried, and the response is not examined for a \<^verbatim>\<open>hits\<close> key. The operation returns False
  exactly when the request raises, the status is 4xx or 5xx, the output file cannot be
  opened or the write to it does not complete, or the content type is JSON and the body
  does not parse or holds a surrogate that UTF-8 cannot encode. In every other case the
  body is written to the output file as it came, the parsed JSON value for a JSON content
  type (of whatever shape) and the text otherwise, and the operation returns True. A file
  without the key is refused only by restore, which returns False for it without any HTTP
  request.
\<close>

theorem execute_request_saves_response_as_it_came:
  "http_calls (snd (execute_request e c endpoint query output_file tr)) =
     http_calls tr @ [HttpGet (local_port c) (endpoint @ ''?pretty'') (Some query)] \<and>
   (fst (execute_request e c endpoint query output_file tr) \<longleftrightarrow>
      (\<exists>r. http e tr (HttpGet (local_port c) (endpoint @ ''?pretty'') (Some query)) = Response r \<and>
           \<not> raise_for_status r \<and> writable e output_file \<and>
           (if startswith (content_type r) ''application/json''
            then \<exists>j. body_json r = Some j \<and> encodable j \<and>
                     write_completes e output_file (JsonDump j)
            else write_completes e output_file (Text (body_text r))))) \<and>
   (\<forall>r j. http e tr (HttpGet (local_port c) (endpoint @ ''?pretty'') (Some query)) = Response r \<and>
          \<not> raise_for_status r \<and> writable e output_file \<and>
          startswith (content_type r) ''application/json'' \<and> body_json r = Some j \<and>
          encodable j \<and> write_completes e output_file (JsonDump j) \<longrightarrow>
      execute_request e c endpoint query output_file tr =
        (True, tr @ [Http (HttpGet (local_port c) (endpoint @ ''?pretty'') (Some query)),
                     Wrote output_file (JsonDump j)])) \<and>
   (\<forall>r. http e tr (HttpGet (local_port c) (endpoint @ ''?pretty'') (Some query)) = Response r \<and>
        \<not> raise_for_status r \<and> writable e output_file \<and>
        \<not> startswith (content_type r) ''application/json'' \<and>
        write_completes e output_file (Text (body_text r)) \<longrightarrow>
      execute_request e c endpoint query output_file tr =
        (True, tr @ [Http (HttpGet (local_port c) (endpoint @ ''?pretty'') (Some query)),
                     Wrote output_file (Text (body_text r))])) \<and>
   (\<not> has_hits saved \<longrightarrow>
      restore_from_file h p (\<lambda>path. Parsed saved) path rtr = (False, rtr))"
proof (intro conjI allI impI)
  show "http_calls (snd (execute_request e c endpoint query output_file tr)) =
          http_calls tr @ [HttpGet (local_port c) (endpoint @ ''?pretty'') (Some query)]"
    by (rule execute_request_one_call)
  show "fst (execute_request e c endpoint query output_file tr) \<longleftrightarrow>
      (\<exists>r. http e tr (HttpGet (local_port c) (endpoint @ ''?pretty'') (Some query)) = Response r \<and>
           \<not> raise_for_status r \<and> writable e output_file \<and>
           (if startswith (content_type r) ''application/json''
            then \<exists>j. body_json r = Some j \<and> encodable j \<and>
                     write_completes e output_file (JsonDump j)
            else write_completes e output_file (Text (body_text r))))"
    by (rule execute_request_succeeds_iff)
next
  fix r j
  assume "http e tr (HttpGet (local_port c) (endpoint @ ''?pretty'') (Some query)) = Response r \<and>
          \<not> raise_for_status r \<and> writable e output_file \<and>
          startswith (content_type r) ''application/json'' \<and> body_json r = Some j \<and>
          encodable j \<and> write_completes e output_file (JsonDump j)"
  then show "execute_request e c endpoint query output_file tr =
        (True, tr @ [Http (HttpGet (local_port c) (endpoint @ ''?pretty'') (Some query)),
                     Wrote output_file (JsonDump j)])"
    by (simp add: execute_request_def write_file_def Let_def)
next
  fix r
  assume "http e tr (HttpGet (local_port c) (endpoint @ ''?pretty'') (Some query)) = Response r \<and>
        \<not> raise_for_status r \<and> writable e output_file \<and>
        \<not> startswith (content_type r) ''application/json'' \<and>
        write_completes e output_file (Text (body_text r))"
  then show "execute_request e c endpoint query output_file tr =
        (True, tr @ [Http (HttpGet (local_port c) (endpoint @ ''?pretty'') (Some query)),
                     Wrote output_file (Text (body_text r))])"
    by (simp add: execute_request_def write_file_def Let_def)
next
  assume "\<not> has_hits saved"
  then show "restore_from_file h p (\<lambda>path. Parsed saved) path rtr = (False, rtr)"
    by (rule restore_from_file_without_hits)
qed

theorem execute_request_saves_response_as_it_came_witness:
  "\<not> has_hits acknowledged \<and>
   execute_request (collect_surroundings (json_server 200 acknowledged) SshConnected) new_collector
     ''/rt-alert-def-vrm-ty-rt-alert-def-vrm/_search'' match_all_query ''json_files/alerts_x.json'' [] =
     (True, [Http (HttpGet 9201 ''/rt-alert-def-vrm-ty-rt-alert-def-vrm/_search?pretty''
                     (Some match_all_query)),
             Wrote ''json_files/alerts_x.json'' (JsonDump acknowledged)]) \<and>
   execute_request (collect_surroundings (text_server ''no such index'') SshConnected) new_collector
     ''/rt-alert-def-vrm-ty-rt-alert-def-vrm/_search'' match_all_query ''json_files/alerts_x.json'' [] =
     (True, [Http (HttpGet 9201 ''/rt-alert-def-vrm-ty-rt-alert-def-vrm/_search?pretty''
                     (Some match_all_query)),
             Wrote ''json_files/alerts_x.json'' (Text ''no such index'')]) \<and>
   \<not> fst (execute_request (collect_surroundings (json_server 404 (envelope [])) SshConnected)
            new_collector ''/rt-alert-def-vrm-ty-rt-alert-def-vrm/_search'' match_all_query
            ''json_files/alerts_x.json'' []) \<and>
   \<not> fst (execute_request (collect_surroundings (json_server 200 (envelope [doc_with_surrogate])) SshConnected)
            new_collector ''/rt-alert-def-vrm-ty-rt-alert-def-vrm/_search'' match_all_query
            ''json_files/alerts_x.json'' []) \<and>
   \<not> fst (execute_request (collect_surroundings refusing SshConnected)
            new_collector ''/rt-alert-def-vrm-ty-rt-alert-def-vrm/_search'' match_all_query
            ''json_files/alerts_x.json'' []) \<and>
   http_calls (snd (execute_request (collect_surroundings refusing SshConnected)
            new_collector ''/rt-alert-def-vrm-ty-rt-alert-def-vrm/_search'' match_all_query
            ''json_files/alerts_x.json'' [])) =
     [HttpGet 9201 ''/rt-alert-def-vrm-ty-rt-alert-def-vrm/_search?pretty'' (Some match_all_query)] \<and>
   restore_from_file created_server 9202 (\<lambda>path. Parsed acknowledged) ''json_files/alerts_x.json'' [] =
     (False, [])"
proof -
  let ?ep = "''/rt-alert-def-vrm-ty-rt-alert-def-vrm/_search''"
  let ?out = "''json_files/alerts_x.json''"
  let ?call = "HttpGet 9201 ''/rt-alert-def-vrm-ty-rt-alert-def-vrm/_search?pretty'' (Some match_all_query)"
  let ?ack = "collect_surroundings (json_server 200 acknowledged) SshConnected"
  let ?txt = "collect_surroundings (text_server ''no such index'') SshConnected"
  let ?nf = "collect_surroundings (json_server 404 (envelope [])) SshConnected"
  let ?sur = "collect_surroundings (json_server 200 (envelope [doc_with_surrogate])) SshConnected"
  let ?ref = "collect_surroundings refusing SshConnected"
  have port: "local_port new_collector = 9201" by (simp add: new_collector_def)
  have ep: "?ep @ ''?pretty'' = ''/rt-alert-def-vrm-ty-rt-alert-def-vrm/_search?pretty''" by simp
  have nh: "\<not> has_hits acknowledged" by (simp add: has_hits_def acknowledged_def)
  have enc: "encodable acknowledged" by (simp add: acknowledged_def)
  have nenc: "\<not> encodable (envelope [doc_with_surrogate])"
    by (simp add: envelope_def doc_with_surrogate_def)
  note t_ack = execute_request_saves_response_as_it_came
                 [of ?ack new_collector ?ep match_all_query ?out "[]" acknowledged created_server 9202
                     ?out "[]"]
  note t_txt = execute_request_saves_response_as_it_came
                 [of ?txt new_collector ?ep match_all_query ?out "[]" acknowledged created_server 9202
                     ?out "[]"]
  note t_nf = execute_request_saves_response_as_it_came
                 [of ?nf new_collector ?ep match_all_query ?out "[]" acknowledged created_server 9202
                     ?out "[]"]
  note t_sur = execute_request_saves_response_as_it_came
                 [of ?sur new_collector ?ep match_all_query ?out "[]" acknowledged created_server 9202
                     ?out "[]"]
  note t_ref = execute_request_saves_response_as_it_came
                 [of ?ref new_collector ?ep match_all_query ?out "[]" acknowledged created_server 9202
                     ?out "[]"]
  have a: "execute_request ?ack new_collector ?ep match_all_query ?out [] =
             (True, [Http ?call, Wrote ?out (JsonDump acknowledged)])"
    using t_ack enc
    by (simp add: port collect_surroundings_def json_server_def raise_for_status_def startswith_def)
  have b: "execute_request ?txt new_collector ?ep match_all_query ?out [] =
             (True, [Http ?call, Wrote ?out (Text ''no such index'')])"
    using t_txt
    by (simp add: port collect_surroundings_def text_server_def raise_for_status_def startswith_def)
  have c: "\<not> fst (execute_request ?nf new_collector ?ep match_all_query ?out [])"
    using t_nf
    by (simp add: port collect_surroundings_def json_server_def raise_for_status_def)
  have d: "\<not> fst (execute_request ?sur new_collector ?ep match_all_query ?out [])"
    using t_sur nenc
    by (simp add: port collect_surroundings_def json_server_def raise_for_status_def startswith_def)
  have e: "\<not> fst (execute_request ?ref new_collector ?ep match_all_query ?out [])"
    using t_ref
    by (simp add: port collect_surroundings_def refusing_def)
  have f: "http_calls (snd (execute_request ?ref new_collector ?ep match_all_query ?out [])) = [?call]"
    using t_ref by (simp add: port)
  have g: "restore_from_file created_server 9202 (\<lambda>path. Parsed acknowledged) ?out [] = (False, [])"
    using t_ack nh by blast
  from nh a b c d e f g show ?thesis by blast
qed

section \<open>The accept loop\<close>

text \<open>
  C6, as stated, fails: the stop flag is not set, \<^verbatim>\<open>accept\<close> raises an error, and a client
  connects afterwards. The loop has ended with the flag still set; the connection is never
  accepted.
\<close>

theorem accept_error_ends_the_loop:
  "accept_loop [failing_accept, accepting 7] True [] =
     (Broke, True, [WaitAccept 1, LogError ''Error accepting tunnel connection''])"
  by (simp add: failing_accept_def accepting_def)

lemma accept_loop_waits:
  "WaitAccept n \<in> set (snd (snd (accept_loop ts running tr))) \<Longrightarrow> WaitAccept n \<in> set tr \<or> n = 1"
proof (induction ts running tr rule: accept_loop.induct)
  case (1 ts tr)
  then show ?case by simp
next
  case (2 tr)
  then show ?case by simp
next
  case (3 t ts tr)
  show ?case
  proof (cases "accepted t")
    case (Accepted conn)
    with 3 show ?thesis by (fastforce simp: Let_def)
  next
    case AcceptTimeout
    with 3 show ?thesis by (fastforce simp: Let_def)
  next
    case AcceptError
    with "3.prems" show ?thesis by (auto simp: Let_def split: if_splits)
  qed
qed

lemma accept_loop_stop:
  "stop_requested t \<Longrightarrow> accept_loop (t # ts) True tr = accept_loop [t] True tr"
  by (cases "accepted t") (simp_all add: Let_def)

text \<open>
  C6, amended. An accept that times out makes the loop read the stop flag again and go on.
  Any other error while accepting ends the loop at once, whatever the flag; it is logged
  exactly when the flag is still set. Every accept waits at most one second, and once the
  flag has been cleared during a wait the loop ends without another accept, whatever would
  come next. A bind error ends the worker, with a log line, before anything is accepted.
\<close>

theorem accept_loop_ends_on_error:
  "(accepted t = AcceptTimeout \<and> \<not> stop_requested t \<longrightarrow>
      accept_loop (t # ts) True tr = accept_loop ts True (tr @ [WaitAccept 1])) \<and>
   (accepted t = AcceptError \<longrightarrow>
      accept_loop (t # ts) True tr =
        (Broke, \<not> stop_requested t,
         tr @ [WaitAccept 1] @
           (if stop_requested t then [] else [LogError ''Error accepting tunnel connection'']))) \<and>
   (stop_requested t \<longrightarrow>
      accept_loop (t # ts) True tr = accept_loop [t] True tr \<and>
      fst (accept_loop (t # ts) True tr) \<noteq> Waiting) \<and>
   (WaitAccept n \<in> set (snd (snd (accept_loop ts running tr))) \<longrightarrow> WaitAccept n \<in> set tr \<or> n = 1) \<and>
   tunnel_worker False port ts running cleared = (BindFailed, [LogError ''Tunnel worker error''])"
proof (intro conjI impI)
  assume "accepted t = AcceptTimeout \<and> \<not> stop_requested t"
  then show "accept_loop (t # ts) True tr = accept_loop ts True (tr @ [WaitAccept 1])"
    by (simp add: Let_def)
next
  assume "accepted t = AcceptError"
  then show "accept_loop (t # ts) True tr =
        (Broke, \<not> stop_requested t,
         tr @ [WaitAccept 1] @
           (if stop_requested t then [] else [LogError ''Error accepting tunnel connection'']))"
    by (simp add: Let_def)
next
  assume "stop_requested t"
  then show "accept_loop (t # ts) True tr = accept_loop [t] True tr"
    by (rule accept_loop_stop)
next
  assume "stop_requested t"
  then show "fst (accept_loop (t # ts) True tr) \<noteq> Waiting"
    by (cases "accepted t") (simp_all add: Let_def)
next
  assume "WaitAccept n \<in> set (snd (snd (accept_loop ts running tr)))"
  then show "WaitAccept n \<in> set tr \<or> n = 1"
    by (rule accept_loop_waits)
next
  show "tunnel_worker False port ts running cleared = (BindFailed, [LogError ''Tunnel worker error''])"
    by (simp add: tunnel_worker_def)
qed

theorem accept_loop_ends_on_error_witness:
  "accepted accept_timeout = AcceptTimeout \<and> \<not> stop_requested accept_timeout \<and>
   accept_loop (accept_timeout # [accepting 7]) True [] = accept_loop [accepting 7] True ([] @ [WaitAccept 1]) \<and>
   accepted failing_accept = AcceptError \<and>
   accept_loop (failing_accept # [accepting 7]) True [] =
     (Broke, True, [WaitAccept 1, LogError ''Error accepting tunnel connection'']) \<and>
   stop_requested (accept_timeout\<lparr>stop_requested := True\<rparr>) \<and>
   accept_loop (accept_timeout\<lparr>stop_requested := True\<rparr> # [accepting 7]) True [] =
     (Stopped, False, [WaitAccept 1]) \<and>
   WaitAccept 1 \<in> set (snd (snd (accept_loop [accepting 7] True [])))"
proof -
  have a: "accepted accept_timeout = AcceptTimeout \<and> \<not> stop_requested accept_timeout"
    by (simp add: accept_timeout_def)
  have b: "accepted failing_accept = AcceptError" by (simp add: failing_accept_def)
  have c: "stop_requested (accept_timeout\<lparr>stop_requested := True\<rparr>)" by simp
  have d: "WaitAccept 1 \<in> set (snd (snd (accept_loop [accepting 7] True [])))"
    by (simp add: accepting_def)
  note t1 = accept_loop_ends_on_error [of accept_timeout "[accepting 7]" "[]" 1 True 9201]
  note t2 = accept_loop_ends_on_error [of failing_accept "[accepting 7]" "[]" 1 True 9201]
  note t3 = accept_loop_ends_on_error [of "accept_timeout\<lparr>stop_requested := True\<rparr>"
              "[accepting 7]" "[]" 1 True 9201]
  from t1 a have e: "accept_loop (accept_timeout # [accepting 7]) True [] =
                       accept_loop [accepting 7] True ([] @ [WaitAccept 1])"
    by blast
  from t2 b have "accept_loop (failing_accept # [accepting 7]) True [] =
        (Broke, \<not> stop_requested failing_accept,
         [] @ [WaitAccept 1] @
           (if stop_requested failing_accept then []
            else [LogError ''Error accepting tunnel connection'']))"
    by blast
  then have f: "accept_loop (failing_accept # [accepting 7]) True [] =
     (Broke, True, [WaitAccept 1, LogError ''Error accepting tunnel connection''])"
    by (simp add: failing_accept_def)
  from t3 c have "accept_loop (accept_timeout\<lparr>stop_requested := True\<rparr> # [accepting 7]) True [] =
                    accept_loop [accept_timeout\<lparr>stop_requested := True\<rparr>] True []"
    by blast
  then have g: "accept_loop (accept_timeout\<lparr>stop_requested := True\<rparr> # [accepting 7]) True [] =
     (Stopped, False, [WaitAccept 1])"
    by (simp add: accept_timeout_def)
  from a b c d e f g show ?thesis by blast
qed

text \<open>
  After a successful bind the worker's \<^verbatim>\<open>finally\<close> closes the socket it stored, however the
  loop ended, unless \<^verbatim>\<open>cleanup_tunnel\<close> has closed and cleared it before.
\<close>

lemma tunnel_worker_closes_its_socket:
  "tunnel_worker True 9201 [] False False = (Stopped, [Listen 9201, CloseServer]) \<and>
   tunnel_worker True 9201 [] False True = (Stopped, [Listen 9201]) \<and>
   tunnel_worker True 9201 [failing_accept] True False =
     (Broke, [Listen 9201, WaitAccept 1, LogError ''Error accepting tunnel connection'',
              CloseServer])"
  by (simp add: tunnel_worker_def failing_accept_def)

section \<open>The forwarding loop\<close>

lemma arrive_in_step: "in_step s \<Longrightarrow> in_step (arrive t s)"
  by (simp add: in_step_def arrive_def Let_def)

lemma client_to_channel_in_step:
  assumes "in_step s" and "takes_all t"
  shows "in_step (snd (client_to_channel t s))"
proof -
  have "take (channel_accepts t) (take 4096 (client_in s)) = take 4096 (client_in s)"
    using assms(2) by (simp add: takes_all_def min_absorb2)
  with assms show ?thesis
    by (auto simp: client_to_channel_def in_step_def takes_all_def Let_def)
qed

lemma channel_to_client_in_step:
  assumes "in_step s" and "takes_all t"
  shows "in_step (snd (channel_to_client t s))"
proof -
  have "take (client_accepts t) (take 4096 (channel_in s)) = take 4096 (channel_in s)"
    using assms(2) by (simp add: takes_all_def min_absorb2)
  with assms show ?thesis
    by (auto simp: channel_to_client_def in_step_def takes_all_def Let_def)
qed

lemma forward_loop_in_step:
  "in_step s \<Longrightarrow> list_all takes_all ts \<Longrightarrow> in_step (snd (forward_loop ts s))"
proof (induction ts arbitrary: s)
  case Nil
  then show ?case by simp
next
  case (Cons t ts)
  from Cons.prems have t: "takes_all t" and ts: "list_all takes_all ts" by simp_all
  define s1 where "s1 = arrive t s"
  define r2 where "r2 = (if client_readable s1 then client_to_channel t s1 else (None, s1))"
  define r3 where "r3 = (if channel_readable s1 then channel_to_client t (snd r2) else (None, snd r2))"
  have i1: "in_step s1" using Cons.prems(1) by (simp add: s1_def arrive_in_step)
  have i2: "in_step (snd r2)"
    using i1 t by (simp add: r2_def client_to_channel_in_step)
  have i3: "in_step (snd r3)"
    using i2 t by (simp add: r3_def channel_to_client_in_step)
  have nofault: "fault t \<noteq> Some Select" using t by (simp add: takes_all_def)
  have unfold: "forward_loop (t # ts) s =
     (case fst r2 of Some ending \<Rightarrow> (ending, snd r2)
      | None \<Rightarrow> (case fst r3 of Some ending \<Rightarrow> (ending, snd r3)
                 | None \<Rightarrow> forward_loop ts (snd r3)))"
    using nofault
    by (auto simp: Let_def s1_def [symmetric] r2_def r3_def split: prod.splits option.splits)
  show ?case
    unfolding unfold
    using i2 i3 Cons.IH [OF i3 ts]
    by (simp split: option.splits)
qed

lemma client_to_channel_closed:
  "client_to_channel t s = (Some ClientClosed, s') \<Longrightarrow> client_in s' = []"
  by (auto simp: client_to_channel_def Let_def split: if_splits)

lemma channel_to_client_not_client_closed:
  "channel_to_client t s = (Some ClientClosed, s') \<Longrightarrow> False"
  by (auto simp: channel_to_client_def Let_def split: if_splits)

lemma forward_loop_client_closed:
  "forward_loop ts s = (ClientClosed, s') \<Longrightarrow> client_in s' = []"
proof (induction ts arbitrary: s)
  case Nil
  then show ?case by simp
next
  case (Cons t ts)
  define s1 where "s1 = arrive t s"
  define r2 where "r2 = (if client_readable s1 then client_to_channel t s1 else (None, s1))"
  define r3 where "r3 = (if channel_readable s1 then channel_to_client t (snd r2) else (None, snd r2))"
  from Cons.prems have nofault: "fault t \<noteq> Some Select"
    by (auto simp: Let_def split: if_splits)
  have unfold: "forward_loop (t # ts) s =
     (case fst r2 of Some ending \<Rightarrow> (ending, snd r2)
      | None \<Rightarrow> (case fst r3 of Some ending \<Rightarrow> (ending, snd r3)
                 | None \<Rightarrow> forward_loop ts (snd r3)))"
    using nofault
    by (auto simp: Let_def s1_def [symmetric] r2_def r3_def split: prod.splits option.splits)
  show ?case
  proof (cases "fst r2")
    case (Some ending)
    with Cons.prems unfold have "r2 = (Some ClientClosed, s')" by (simp add: prod_eq_iff)
    then show ?thesis
      using client_to_channel_closed [of t s1 s'] by (simp add: r2_def split: if_splits)
  next
    case None
    note r2none = None
    show ?thesis
    proof (cases "fst r3")
      case (Some ending)
      with Cons.prems unfold r2none have "r3 = (Some ClientClosed, s')" by (simp add: prod_eq_iff)
      then show ?thesis
        using channel_to_client_not_client_closed [of t "snd r2" s']
        by (simp add: r3_def split: if_splits)
    next
      case None
      with Cons.prems unfold r2none have "forward_loop ts (snd r3) = (ClientClosed, s')" by simp
      then show ?thesis by (rule Cons.IH)
    qed
  qed
qed

text \<open>
  When every \<^verbatim>\<open>send\<close> takes its whole chunk and nothing raises, the relay loses and reorders
  nothing: what has been delivered to a side is what its peer sent, less the bytes that
  still wait unread; and when the loop ends because the client closed, the channel has
  received everything the client sent.
\<close>

lemma forward_loop_faithful:
  assumes "in_step s" and "list_all takes_all ts"
  shows "to_channel (snd (forward_loop ts s)) @ client_in (snd (forward_loop ts s)) =
           client_sent (snd (forward_loop ts s)) \<and>
         to_client (snd (forward_loop ts s)) @ channel_in (snd (forward_loop ts s)) =
           channel_sent (snd (forward_loop ts s)) \<and>
         (fst (forward_loop ts s) = ClientClosed \<longrightarrow>
            to_channel (snd (forward_loop ts s)) = client_sent (snd (forward_loop ts s)))"
proof -
  have i: "in_step (snd (forward_loop ts s))"
    by (rule forward_loop_in_step [OF assms])
  moreover have "fst (forward_loop ts s) = ClientClosed \<Longrightarrow> client_in (snd (forward_loop ts s)) = []"
    using forward_loop_client_closed [of ts s "snd (forward_loop ts s)"]
    by (simp add: prod_eq_iff)
  ultimately show ?thesis by (auto simp: in_step_def)
qed

text \<open>
  C1. The client sends \<^verbatim>\<open>abcdef\<close>, of which \<^verbatim>\<open>channel.send\<close> takes four bytes; then it sends
  \<^verbatim>\<open>gh\<close>, taken whole; then it closes. The loop ends on the zero-length read with both
  endpoints closed, the client having sent \<^verbatim>\<open>abcdefgh\<close> and the channel having received
  \<^verbatim>\<open>abcdgh\<close>.
\<close>

theorem forwarder_drops_bytes_of_partial_send:
  "handle_tunnel_connection True
     [quiet\<lparr>client_sends := ''abcdef'', channel_accepts := 4\<rparr>,
      quiet\<lparr>client_sends := ''gh''\<rparr>,
      quiet\<lparr>client_closes := True\<rparr>] idle =
     (ClientClosed,
      idle\<lparr>client_sent := ''abcdefgh'', client_eof := True, to_channel := ''abcdgh''\<rparr>,
      True, True)"
  by (simp add: handle_tunnel_connection_def quiet_def idle_def arrive_def client_readable_def
        channel_readable_def client_to_channel_def channel_to_client_def Let_def)

end
